theory Spec2Isabelle
  imports Main
begin

section \<open>Values and the Python operations the pipeline applies to them\<close>

text \<open>
  Webhook bodies, wire payloads and provider responses are JSON values. An object is an
  association list in key order (a Python \<open>dict\<close> keeps insertion order); a lookup
  takes the first binding of a key. A float is carried as its literal text: the code only
  passes numbers through.
\<close>

datatype json =
    JNull
  | JBool bool
  | JInt int
  | JFloat string
  | JStr string
  | JArr "json list"
  | JObj "(string \<times> json) list"

text \<open>The exceptions that the modelled code and its collaborators raise.\<close>

datatype py_error =
    TypeError
  | AttributeError
  | KeyError string
  | ValueError string
  | JSONDecodeError
  | ClientError
  | ContentTypeError
  | ApiError json
  | PyMongoError
  | DuplicateKeyError

text \<open>\<open>needle in haystack\<close> on two Python strings: substring test.\<close>

fun is_prefix :: "string \<Rightarrow> string \<Rightarrow> bool" where
  "is_prefix [] ys = True"
| "is_prefix (x # xs) [] = False"
| "is_prefix (x # xs) (y # ys) = (x = y \<and> is_prefix xs ys)"

fun is_substring :: "string \<Rightarrow> string \<Rightarrow> bool" where
  "is_substring xs [] = (xs = [])"
| "is_substring xs (y # ys) = (is_prefix xs (y # ys) \<or> is_substring xs ys)"

text \<open>
  \<open>key in container\<close>: key membership for a dict, element membership for a list,
  substring test for a string, \<open>TypeError\<close> for \<open>None\<close>, booleans and numbers.
\<close>

fun py_in :: "string \<Rightarrow> json \<Rightarrow> py_error + bool" where
  "py_in k (JObj kvs) = Inr (k \<in> set (map fst kvs))"
| "py_in k (JArr xs) = Inr (JStr k \<in> set xs)"
| "py_in k (JStr s) = Inr (is_substring k s)"
| "py_in k JNull = Inl TypeError"
| "py_in k (JBool b) = Inl TypeError"
| "py_in k (JInt i) = Inl TypeError"
| "py_in k (JFloat f) = Inl TypeError"

text \<open>\<open>container.get(key, default)\<close>: only a dict has \<open>get\<close>.\<close>

fun py_get :: "json \<Rightarrow> string \<Rightarrow> json \<Rightarrow> py_error + json" where
  "py_get (JObj kvs) k d = Inr (case map_of kvs k of Some v \<Rightarrow> v | None \<Rightarrow> d)"
| "py_get JNull k d = Inl AttributeError"
| "py_get (JBool b) k d = Inl AttributeError"
| "py_get (JInt i) k d = Inl AttributeError"
| "py_get (JFloat f) k d = Inl AttributeError"
| "py_get (JStr s) k d = Inl AttributeError"
| "py_get (JArr xs) k d = Inl AttributeError"

text \<open>
  \<open>for x in container\<close>: the elements of a list, the keys of a dict, the characters of
  a string; \<open>TypeError\<close> for \<open>None\<close>, booleans and numbers.
\<close>

fun py_iter :: "json \<Rightarrow> py_error + json list" where
  "py_iter (JArr xs) = Inr xs"
| "py_iter (JObj kvs) = Inr (map (\<lambda>kv. JStr (fst kv)) kvs)"
| "py_iter (JStr s) = Inr (map (\<lambda>c. JStr [c]) s)"
| "py_iter JNull = Inl TypeError"
| "py_iter (JBool b) = Inl TypeError"
| "py_iter (JInt i) = Inl TypeError"
| "py_iter (JFloat f) = Inl TypeError"

text \<open>
  \<open>str.strip()\<close> and \<open>str.lower()\<close> on the ASCII range: the whitespace characters
  are 9 to 13 and 28 to 32, the upper-case letters are 65 to 90. Characters are bytes
  here, so the Unicode whitespace and case mappings beyond ASCII are left alone.
\<close>

definition is_space :: "char \<Rightarrow> bool" where
  "is_space c = (let n = (of_char c :: nat) in (9 \<le> n \<and> n \<le> 13) \<or> (28 \<le> n \<and> n \<le> 32))"

definition py_strip :: "string \<Rightarrow> string" where
  "py_strip s = rev (dropWhile is_space (rev (dropWhile is_space s)))"

definition lower_char :: "char \<Rightarrow> char" where
  "lower_char c = (let n = (of_char c :: nat) in
     if 65 \<le> n \<and> n \<le> 90 then char_of (n + 32) else c)"

definition py_lower :: "string \<Rightarrow> string" where
  "py_lower s = map lower_char s"

text \<open>\<open>d[k] = v\<close> on a dict: an existing key keeps its place, a new key goes last.\<close>

fun dict_set :: "'k \<Rightarrow> 'v \<Rightarrow> ('k \<times> 'v) list \<Rightarrow> ('k \<times> 'v) list" where
  "dict_set k v [] = [(k, v)]"
| "dict_set k v (p # ps) = (if fst p = k then (k, v) # ps else p # dict_set k v ps)"


section \<open>Configuration, surroundings and state\<close>

text \<open>\<open>app/config.py\<close>: the settings the pipeline reads.\<close>

record settings =
  WHATSAPP_API_TOKEN :: string
  WHATSAPP_PHONE_NUMBER_ID :: string
  WEBHOOK_VERIFY_TOKEN :: string
  WHATSAPP_API_VERSION :: string
  WHATSAPP_API_BASE_URL :: string

definition get_whatsapp_api_url :: "settings \<Rightarrow> string" where
  "get_whatsapp_api_url cfg =
     WHATSAPP_API_BASE_URL cfg @ ''/'' @ WHATSAPP_API_VERSION cfg @ ''/'' @ WHATSAPP_PHONE_NUMBER_ID cfg"

text \<open>
  What one \<open>session.post\<close> meets: no connection, or a response with a status and a
  body that \<open>response.json()\<close> either decodes (\<open>Some\<close>) or rejects (\<open>None\<close>).
\<close>

datatype http_outcome = ConnectionFailed | Response int "json option"

record http_post =
  post_url :: string
  post_json :: json
  post_headers :: "(string \<times> string) list"

text \<open>A stored document: a dict whose values are JSON, datetimes or object ids.\<close>

datatype dbval = J json | DateTime nat | ObjectId nat

type_synonym doc = "(string \<times> dbval) list"

datatype level = WARNING | ERROR

text \<open>
  The surroundings of the process, outside the repository: the provider's answer to the
  \<open>n\<close>-th POST, whether the \<open>n\<close>-th database operation fails, the \<open>n\<close>-th reading
  of \<open>datetime.utcnow()\<close>, and Python's \<open>str()\<close> on a value interpolated into an
  f-string.
\<close>

record env =
  respond :: "nat \<Rightarrow> http_post \<Rightarrow> http_outcome"
  db_fails :: "nat \<Rightarrow> bool"
  utcnow :: "nat \<Rightarrow> nat"
  py_str :: "json \<Rightarrow> string"

text \<open>
  The state the code changes: the POSTs attempted so far (oldest first), the
  \<open>messages\<close> collection, the warning and error lines logged (info lines are left
  out), and how many database operations and clock readings have happened.
\<close>

record world =
  posts :: "http_post list"
  messages :: "doc list"
  logs :: "(level \<times> string) list"
  db_ops :: nat
  clock_reads :: nat

type_synonym 'a io = "world \<Rightarrow> (py_error + 'a) \<times> world"

definition returnE :: "'a \<Rightarrow> 'a io" where
  "returnE x = (\<lambda>w. (Inr x, w))"

definition raiseE :: "py_error \<Rightarrow> 'a io" where
  "raiseE e = (\<lambda>w. (Inl e, w))"

text \<open>A pure step that may raise.\<close>

definition liftE :: "py_error + 'a \<Rightarrow> 'a io" where
  "liftE r = (\<lambda>w. (r, w))"

text \<open>Sequencing: an exception skips the rest and keeps the state reached.\<close>

definition bindE :: "'a io \<Rightarrow> ('a \<Rightarrow> 'b io) \<Rightarrow> 'b io" where
  "bindE m f = (\<lambda>w. case m w of (Inl e, w') \<Rightarrow> (Inl e, w') | (Inr x, w') \<Rightarrow> f x w')"

text \<open>\<open>try: m except Exception as e: h e\<close>.\<close>

definition try_except :: "'a io \<Rightarrow> (py_error \<Rightarrow> 'a io) \<Rightarrow> 'a io" where
  "try_except m h = (\<lambda>w. case m w of (Inl e, w') \<Rightarrow> h e w' | (Inr x, w') \<Rightarrow> (Inr x, w'))"

text \<open>\<open>for x in xs: f x\<close>.\<close>

fun for_each :: "('a \<Rightarrow> unit io) \<Rightarrow> 'a list \<Rightarrow> unit io" where
  "for_each f [] = returnE ()"
| "for_each f (x # xs) = bindE (f x) (\<lambda>_. for_each f xs)"

definition log :: "level \<Rightarrow> string \<Rightarrow> unit io" where
  "log l s = (\<lambda>w. (Inr (), w\<lparr>logs := logs w @ [(l, s)]\<rparr>))"

definition read_clock :: "env \<Rightarrow> nat io" where
  "read_clock ev = (\<lambda>w. (Inr (utcnow ev (clock_reads w)), w\<lparr>clock_reads := Suc (clock_reads w)\<rparr>))"


section \<open>\<open>app/services/whatsapp.py\<close>: payload construction and transport\<close>

record WhatsAppService =
  api_url :: string
  headers :: "(string \<times> string) list"

definition WhatsAppService_init :: "settings \<Rightarrow> WhatsAppService" where
  "WhatsAppService_init cfg =
     \<lparr> api_url = get_whatsapp_api_url cfg,
       headers = [(''Authorization'', ''Bearer '' @ WHATSAPP_API_TOKEN cfg),
                  (''Content-Type'', ''application/json'')] \<rparr>"

text \<open>
  \<open>_send_request\<close>: one POST. A connection failure or an undecodable body raises out
  of the \<open>async with\<close>; a decoded body with a status other than 200 is logged and raised
  as \<open>Exception(f"API error: {response_data}")\<close>, which carries the decoded body and not
  the status; the outer \<open>except\<close> logs every exception and re-raises it.
\<close>

definition send_request :: "env \<Rightarrow> WhatsAppService \<Rightarrow> string \<Rightarrow> json \<Rightarrow> json io" where
  "send_request ev svc url payload =
     try_except
       (\<lambda>w. let p = \<lparr> post_url = url, post_json = payload, post_headers = headers svc \<rparr>;
                 w1 = w\<lparr>posts := posts w @ [p]\<rparr>
             in case respond ev (length (posts w)) p of
                  ConnectionFailed \<Rightarrow> (Inl ClientError, w1)
                | Response st None \<Rightarrow> (Inl ContentTypeError, w1)
                | Response st (Some response_data) \<Rightarrow>
                    if st \<noteq> 200
                    then bindE (log ERROR ''WhatsApp API error'')
                           (\<lambda>_. raiseE (ApiError response_data)) w1
                    else (Inr response_data, w1))
       (\<lambda>e. bindE (log ERROR ''Error sending WhatsApp message'') (\<lambda>_. raiseE e))"

definition send_text_message :: "env \<Rightarrow> WhatsAppService \<Rightarrow> json \<Rightarrow> string \<Rightarrow> bool \<Rightarrow> json io" where
  "send_text_message ev svc to message preview_url =
     send_request ev svc (api_url svc @ ''/messages'')
       (JObj [(''messaging_product'', JStr ''whatsapp''),
              (''recipient_type'', JStr ''individual''),
              (''to'', to),
              (''type'', JStr ''text''),
              (''text'', JObj [(''preview_url'', JBool preview_url), (''body'', JStr message)])])"

text \<open>\<open>btn["id"]\<close>, \<open>btn["title"]\<close>: a missing key raises \<open>KeyError\<close>.\<close>

definition subscript :: "(string \<times> string) list \<Rightarrow> string \<Rightarrow> py_error + string" where
  "subscript d k = (case map_of d k of None \<Rightarrow> Inl (KeyError k) | Some v \<Rightarrow> Inr v)"

definition reply_button :: "(string \<times> string) list \<Rightarrow> py_error + json" where
  "reply_button btn =
     (case subscript btn ''id'' of Inl e \<Rightarrow> Inl e | Inr i \<Rightarrow>
      case subscript btn ''title'' of Inl e \<Rightarrow> Inl e | Inr t \<Rightarrow>
        Inr (JObj [(''type'', JStr ''reply''),
                   (''reply'', JObj [(''id'', JStr i), (''title'', JStr t)])]))"

text \<open>The list comprehension over \<open>buttons\<close>: the first failing element raises.\<close>

fun reply_buttons :: "(string \<times> string) list list \<Rightarrow> py_error + json list" where
  "reply_buttons [] = Inr []"
| "reply_buttons (btn # btns) =
     (case reply_button btn of Inl e \<Rightarrow> Inl e | Inr b \<Rightarrow>
      case reply_buttons btns of Inl e \<Rightarrow> Inl e | Inr bs \<Rightarrow> Inr (b # bs))"

text \<open>
  \<open>if header_text:\<close> and \<open>if footer_text:\<close>: \<open>None\<close> and the empty string are
  falsy; otherwise the entry is set on the interactive object.
\<close>

definition with_header_footer ::
  "string option \<Rightarrow> string option \<Rightarrow> (string \<times> json) list \<Rightarrow> (string \<times> json) list" where
  "with_header_footer header_text footer_text interactive_data =
     (let d1 = (case header_text of
                  None \<Rightarrow> interactive_data
                | Some h \<Rightarrow>
                    if h = [] then interactive_data
                    else dict_set ''header'' (JObj [(''type'', JStr ''text''), (''text'', JStr h)])
                           interactive_data)
      in case footer_text of
           None \<Rightarrow> d1
         | Some f \<Rightarrow> if f = [] then d1 else dict_set ''footer'' (JObj [(''text'', JStr f)]) d1)"

definition interactive_payload :: "json \<Rightarrow> (string \<times> json) list \<Rightarrow> json" where
  "interactive_payload to interactive_data =
     JObj [(''messaging_product'', JStr ''whatsapp''),
           (''recipient_type'', JStr ''individual''),
           (''to'', to),
           (''type'', JStr ''interactive''),
           (''interactive'', JObj interactive_data)]"

text \<open>
  \<open>send_buttons\<close>: the only check on the list is \<open>len(buttons) > 3\<close>; then the payload
  is built and handed to \<open>_send_request\<close>.
\<close>

definition send_buttons ::
  "env \<Rightarrow> WhatsAppService \<Rightarrow> json \<Rightarrow> string \<Rightarrow> (string \<times> string) list list \<Rightarrow>
   string option \<Rightarrow> string option \<Rightarrow> json io" where
  "send_buttons ev svc to body_text buttons header_text footer_text =
     (if length buttons > 3 then raiseE (ValueError ''Maximum 3 buttons allowed'')
      else bindE (liftE (reply_buttons buttons)) (\<lambda>bs.
        send_request ev svc (api_url svc @ ''/messages'')
          (interactive_payload to
             (with_header_footer header_text footer_text
                [(''type'', JStr ''button''),
                 (''body'', JObj [(''text'', JStr body_text)]),
                 (''action'', JObj [(''buttons'', JArr bs)])]))))"

definition send_list ::
  "env \<Rightarrow> WhatsAppService \<Rightarrow> json \<Rightarrow> string \<Rightarrow> string \<Rightarrow> json list \<Rightarrow>
   string option \<Rightarrow> string option \<Rightarrow> json io" where
  "send_list ev svc to body_text button_text sections header_text footer_text =
     send_request ev svc (api_url svc @ ''/messages'')
       (interactive_payload to
          (with_header_footer header_text footer_text
             [(''type'', JStr ''list''),
              (''body'', JObj [(''text'', JStr body_text)]),
              (''action'', JObj [(''button'', JStr button_text), (''sections'', JArr sections)])]))"

definition mark_as_read :: "env \<Rightarrow> WhatsAppService \<Rightarrow> json \<Rightarrow> json io" where
  "mark_as_read ev svc message_id =
     send_request ev svc (api_url svc @ ''/messages'')
       (JObj [(''messaging_product'', JStr ''whatsapp''),
              (''status'', JStr ''read''),
              (''message_id'', message_id)])"


section \<open>\<open>app/services/database.py\<close>: the messages collection\<close>

text \<open>
  The collection is the list of its documents in insertion order. A new object id is
  one more than the largest object id in the collection, so it is never one in use.
\<close>

fun oid_succ :: "dbval option \<Rightarrow> nat" where
  "oid_succ (Some (ObjectId n)) = Suc n"
| "oid_succ (Some (J v)) = 0"
| "oid_succ (Some (DateTime t)) = 0"
| "oid_succ None = 0"

definition fresh_oid :: "doc list \<Rightarrow> nat" where
  "fresh_oid coll = fold max (map (\<lambda>d. oid_succ (map_of d ''_id'')) coll) 0"

text \<open>
  \<open>collection.insert_one(d)\<close>: a document without \<open>_id\<close> gets a new object id; one
  with an \<open>_id\<close> already stored is rejected. Every database operation may fail as a
  whole.
\<close>

definition insert_one :: "env \<Rightarrow> doc \<Rightarrow> dbval io" where
  "insert_one ev d =
     (\<lambda>w. let w1 = w\<lparr>db_ops := Suc (db_ops w)\<rparr>
           in if db_fails ev (db_ops w) then (Inl PyMongoError, w1)
              else case map_of d ''_id'' of
                     None \<Rightarrow>
                       let i = ObjectId (fresh_oid (messages w))
                       in (Inr i, w1\<lparr>messages := messages w @ [d @ [(''_id'', i)]]\<rparr>)
                   | Some i \<Rightarrow>
                       if Some i \<in> set (map (\<lambda>d'. map_of d' ''_id'') (messages w))
                       then (Inl DuplicateKeyError, w1)
                       else (Inr i, w1\<lparr>messages := messages w @ [d]\<rparr>))"

text \<open>
  The filter \<open>{"message_id": q}\<close>: the stored field equals \<open>q\<close>, or is an array that
  contains \<open>q\<close>, or \<open>q\<close> is null and the field is missing. Equality is that of the
  JSON values, which is MongoDB's for strings, the type of a message id; MongoDB also
  equates numbers across numeric types and reads an object with \<open>$\<close> keys as operators,
  which is left out.
\<close>

fun matches_eq :: "dbval option \<Rightarrow> json \<Rightarrow> bool" where
  "matches_eq None q = (q = JNull)"
| "matches_eq (Some (J v)) q = (v = q \<or> (case v of JArr xs \<Rightarrow> q \<in> set xs | _ \<Rightarrow> False))"
| "matches_eq (Some (DateTime t)) q = False"
| "matches_eq (Some (ObjectId n)) q = False"

text \<open>
  \<open>update_one\<close> changes the first document that matches, and counts it as modified
  when the change altered it.
\<close>

fun update_first :: "(doc \<Rightarrow> bool) \<Rightarrow> (doc \<Rightarrow> doc) \<Rightarrow> doc list \<Rightarrow> doc list \<times> nat" where
  "update_first P f [] = ([], 0)"
| "update_first P f (d # ds) =
     (if P d then (f d # ds, if f d = d then 0 else 1)
      else case update_first P f ds of (ds', n) \<Rightarrow> (d # ds', n))"

definition update_one :: "env \<Rightarrow> (doc \<Rightarrow> bool) \<Rightarrow> (doc \<Rightarrow> doc) \<Rightarrow> nat io" where
  "update_one ev P f =
     (\<lambda>w. let w1 = w\<lparr>db_ops := Suc (db_ops w)\<rparr>
           in if db_fails ev (db_ops w) then (Inl PyMongoError, w1)
              else case update_first P f (messages w) of
                     (ms, modified_count) \<Rightarrow> (Inr modified_count, w1\<lparr>messages := ms\<rparr>))"

text \<open>The \<open>$set\<close> operator: each field is set in turn.\<close>

definition set_fields :: "(string \<times> dbval) list \<Rightarrow> doc \<Rightarrow> doc" where
  "set_fields kvs d = fold (\<lambda>kv. dict_set (fst kv) (snd kv)) kvs d"

text \<open>
  \<open>save_message\<close>: stamps \<open>created_at\<close> and \<open>updated_at\<close> with two readings of the
  clock and calls \<open>insert_one\<close>; an exception is logged and re-raised. It returns the
  inserted id (its conversion to text is left out).
\<close>

definition save_message :: "env \<Rightarrow> doc \<Rightarrow> dbval io" where
  "save_message ev message_data =
     try_except
       (bindE (read_clock ev) (\<lambda>t1.
        bindE (read_clock ev) (\<lambda>t2.
        insert_one ev
          (dict_set ''updated_at'' (DateTime t2)
             (dict_set ''created_at'' (DateTime t1) message_data)))))
       (\<lambda>e. bindE (log ERROR ''Error saving message'') (\<lambda>_. raiseE e))"

text \<open>
  \<open>update_message_status\<close>: a field-level update of the first document matched by
  \<open>message_id\<close>; \<open>True\<close> when a document was modified; any exception is logged and
  turned into \<open>False\<close>.
\<close>

definition update_message_status :: "env \<Rightarrow> json \<Rightarrow> json \<Rightarrow> json \<Rightarrow> bool io" where
  "update_message_status ev message_id status timestamp =
     try_except
       (bindE (read_clock ev) (\<lambda>now.
        bindE (update_one ev
                 (\<lambda>d. matches_eq (map_of d ''message_id'') message_id)
                 (set_fields [(''status'', J status),
                              (''status_timestamp'', J timestamp),
                              (''updated_at'', DateTime now)])) (\<lambda>modified_count.
        returnE (modified_count > 0))))
       (\<lambda>e. bindE (log ERROR ''Error updating message status'') (\<lambda>_. returnE False))"

section \<open>\<open>app/services/message_handler.py\<close>: the handlers\<close>

text \<open>
  The reply texts, byte for byte in UTF-8 (a line feed is character 10, the emoji are
  their byte sequences).
\<close>

definition nl :: string where
  "nl = [CHR 0x0A]"

definition bullet :: string where
  "bullet = [CHR 0xE2, CHR 0x80, CHR 0xA2]"

definition greeting_message :: string where
  "greeting_message =
     [CHR 0xF0, CHR 0x9F, CHR 0x91, CHR 0x8B] @ '' Hello! Welcome to WhatsApp Bot Starter.''
     @ nl @ nl @ ''Type '' @ [CHR 0x27] @ ''help'' @ [CHR 0x27] @ '' to see available commands.''"

definition help_message :: string where
  "help_message =
     nl @ [CHR 0xF0, CHR 0x9F, CHR 0xA4, CHR 0x96] @ '' *WhatsApp Bot Commands*'' @ nl
     @ nl
     @ bullet @ '' hello - Greet the bot'' @ nl
     @ bullet @ '' help - Show this help message'' @ nl
     @ bullet @ '' menu - Show interactive menu'' @ nl
     @ bullet @ '' buttons - Demo button message'' @ nl
     @ bullet @ '' info - Get bot information'' @ nl
     @ nl
     @ ''Type any command to get started!'' @ nl
     @ ''            ''"

definition info_message :: string where
  "info_message =
     nl @ [CHR 0xE2, CHR 0x84, CHR 0xB9, CHR 0xEF, CHR 0xB8, CHR 0x8F] @ '' *Bot Information*'' @ nl
     @ nl
     @ ''Name: WhatsApp Bot Starter'' @ nl
     @ ''Version: 1.0.0'' @ nl
     @ ''Built by: BotDev Community'' @ nl
     @ nl
     @ ''This is a production-ready template for building WhatsApp bots using FastAPI and WhatsApp Cloud API.'' @ nl
     @ nl
     @ ''GitHub: github.com/botdev-community'' @ nl
     @ ''            ''"

definition echo_message :: "string \<Rightarrow> string" where
  "echo_message text =
     ''I received your message: '' @ [CHR 0x27] @ text @ [CHR 0x27] @ nl @ nl
     @ ''Type '' @ [CHR 0x27] @ ''help'' @ [CHR 0x27] @ '' to see available commands.''"

text \<open>The sections literal of the \<open>menu\<close> branch.\<close>

definition menu_row :: "string \<Rightarrow> string \<Rightarrow> string \<Rightarrow> json" where
  "menu_row i t d = JObj [(''id'', JStr i), (''title'', JStr t), (''description'', JStr d)]"

definition menu_sections :: "json list" where
  "menu_sections =
     [JObj [(''title'', JStr ''Main Menu''),
            (''rows'', JArr [menu_row ''option_1'' ''Option 1'' ''Description for option 1'',
                             menu_row ''option_2'' ''Option 2'' ''Description for option 2'',
                             menu_row ''option_3'' ''Option 3'' ''Description for option 3''])]]"

definition demo_buttons :: "(string \<times> string) list list" where
  "demo_buttons =
     [[(''id'', ''btn_1''), (''title'', ''Button 1'')],
      [(''id'', ''btn_2''), (''title'', ''Button 2'')],
      [(''id'', ''btn_3''), (''title'', ''Button 3'')]]"

text \<open>\<open>x.strip()\<close> on a JSON value: only a string has \<open>strip\<close>.\<close>

fun strip_value :: "json \<Rightarrow> py_error + string" where
  "strip_value (JStr s) = Inr (py_strip s)"
| "strip_value JNull = Inl AttributeError"
| "strip_value (JBool b) = Inl AttributeError"
| "strip_value (JInt i) = Inl AttributeError"
| "strip_value (JFloat f) = Inl AttributeError"
| "strip_value (JArr xs) = Inl AttributeError"
| "strip_value (JObj kvs) = Inl AttributeError"

text \<open>A value interpolated into an f-string: a string as it is, anything else by \<open>str()\<close>.\<close>

fun interpolate :: "env \<Rightarrow> json \<Rightarrow> string" where
  "interpolate ev (JStr s) = s"
| "interpolate ev v = py_str ev v"

text \<open>A handler awaits its send and drops the provider's answer.\<close>

definition discard :: "json io \<Rightarrow> unit io" where
  "discard m = bindE m (\<lambda>_. returnE ())"

definition handle_text_message :: "env \<Rightarrow> WhatsAppService \<Rightarrow> json \<Rightarrow> json \<Rightarrow> unit io" where
  "handle_text_message ev svc message from_number =
     bindE (liftE (py_get message ''text'' (JObj []))) (\<lambda>t.
     bindE (liftE (py_get t ''body'' (JStr []))) (\<lambda>b.
     bindE (liftE (strip_value b)) (\<lambda>text.
       let text_lower = py_lower text in
       if text_lower \<in> set [''hello'', ''hi'', ''hey'']
       then discard (send_text_message ev svc from_number greeting_message False)
       else if text_lower = ''help''
       then discard (send_text_message ev svc from_number help_message False)
       else if text_lower = ''menu''
       then discard (send_list ev svc from_number ''Select an option from the menu:''
                       ''View Options'' menu_sections None None)
       else if text_lower = ''buttons''
       then discard (send_buttons ev svc from_number ''Choose an action:'' demo_buttons
                       (Some ''Demo Buttons'') (Some ''Select one option''))
       else if text_lower = ''info''
       then discard (send_text_message ev svc from_number info_message False)
       else discard (send_text_message ev svc from_number (echo_message text) False))))"

definition handle_image_message :: "env \<Rightarrow> WhatsAppService \<Rightarrow> json \<Rightarrow> json \<Rightarrow> unit io" where
  "handle_image_message ev svc message from_number =
     bindE (liftE (py_get message ''image'' (JObj []))) (\<lambda>image.
     bindE (liftE (py_get image ''caption'' (JStr []))) (\<lambda>caption.
     discard (send_text_message ev svc from_number
       ([CHR 0xF0, CHR 0x9F, CHR 0x93, CHR 0xB8]
        @ '' I received your image! Image processing is not implemented yet.'') False)))"

definition handle_document_message :: "env \<Rightarrow> WhatsAppService \<Rightarrow> json \<Rightarrow> json \<Rightarrow> unit io" where
  "handle_document_message ev svc message from_number =
     bindE (liftE (py_get message ''document'' (JObj []))) (\<lambda>document.
     bindE (liftE (py_get document ''filename'' (JStr ''unknown''))) (\<lambda>filename.
     discard (send_text_message ev svc from_number
       ([CHR 0xF0, CHR 0x9F, CHR 0x93, CHR 0x84] @ '' I received your document: ''
        @ interpolate ev filename) False)))"

definition handle_audio_message :: "env \<Rightarrow> WhatsAppService \<Rightarrow> json \<Rightarrow> json \<Rightarrow> unit io" where
  "handle_audio_message ev svc message from_number =
     discard (send_text_message ev svc from_number
       ([CHR 0xF0, CHR 0x9F, CHR 0x8E, CHR 0xB5] @ '' I received your audio message!'') False)"

definition handle_video_message :: "env \<Rightarrow> WhatsAppService \<Rightarrow> json \<Rightarrow> json \<Rightarrow> unit io" where
  "handle_video_message ev svc message from_number =
     discard (send_text_message ev svc from_number
       ([CHR 0xF0, CHR 0x9F, CHR 0x8E, CHR 0xA5] @ '' I received your video!'') False)"

definition handle_location_message :: "env \<Rightarrow> WhatsAppService \<Rightarrow> json \<Rightarrow> json \<Rightarrow> unit io" where
  "handle_location_message ev svc message from_number =
     bindE (liftE (py_get message ''location'' (JObj []))) (\<lambda>location.
     bindE (liftE (py_get location ''latitude'' JNull)) (\<lambda>latitude.
     bindE (liftE (py_get location ''longitude'' JNull)) (\<lambda>longitude.
     discard (send_text_message ev svc from_number
       ([CHR 0xF0, CHR 0x9F, CHR 0x93, CHR 0x8D] @ '' I received your location:'' @ nl
        @ ''Lat: '' @ interpolate ev latitude @ nl
        @ ''Lon: '' @ interpolate ev longitude) False))))"

definition handle_interactive_message :: "env \<Rightarrow> WhatsAppService \<Rightarrow> json \<Rightarrow> json \<Rightarrow> unit io" where
  "handle_interactive_message ev svc message from_number =
     bindE (liftE (py_get message ''interactive'' (JObj []))) (\<lambda>interactive.
     bindE (liftE (py_get interactive ''type'' JNull)) (\<lambda>interactive_type.
       if interactive_type = JStr ''button_reply''
       then bindE (liftE (py_get interactive ''button_reply'' (JObj []))) (\<lambda>button_reply.
            bindE (liftE (py_get button_reply ''id'' JNull)) (\<lambda>button_id.
            bindE (liftE (py_get button_reply ''title'' JNull)) (\<lambda>button_title.
            discard (send_text_message ev svc from_number
              (''You clicked: '' @ interpolate ev button_title) False))))
       else if interactive_type = JStr ''list_reply''
       then bindE (liftE (py_get interactive ''list_reply'' (JObj []))) (\<lambda>list_reply.
            bindE (liftE (py_get list_reply ''id'' JNull)) (\<lambda>list_id.
            bindE (liftE (py_get list_reply ''title'' JNull)) (\<lambda>list_title.
            discard (send_text_message ev svc from_number
              (''You selected: '' @ interpolate ev list_title) False))))
       else returnE ()))"

text \<open>
  \<open>process_message\<close>: mark as read, save, dispatch on the type; the whole body is
  inside \<open>try\<close>, and the \<open>except\<close> only logs.
\<close>

definition process_message :: "env \<Rightarrow> WhatsAppService \<Rightarrow> json \<Rightarrow> json \<Rightarrow> unit io" where
  "process_message ev svc message value =
     try_except
       (bindE (liftE (py_get message ''type'' JNull)) (\<lambda>message_type.
        bindE (liftE (py_get message ''from'' JNull)) (\<lambda>from_number.
        bindE (liftE (py_get message ''id'' JNull)) (\<lambda>message_id.
        bindE (liftE (py_get message ''timestamp'' JNull)) (\<lambda>timestamp.
        bindE (mark_as_read ev svc message_id) (\<lambda>_.
        bindE (save_message ev
                 [(''message_id'', J message_id),
                  (''from'', J from_number),
                  (''type'', J message_type),
                  (''timestamp'', J timestamp),
                  (''data'', J message)]) (\<lambda>_.
          if message_type = JStr ''text'' then handle_text_message ev svc message from_number
          else if message_type = JStr ''image'' then handle_image_message ev svc message from_number
          else if message_type = JStr ''document'' then handle_document_message ev svc message from_number
          else if message_type = JStr ''audio'' then handle_audio_message ev svc message from_number
          else if message_type = JStr ''video'' then handle_video_message ev svc message from_number
          else if message_type = JStr ''location'' then handle_location_message ev svc message from_number
          else if message_type = JStr ''interactive'' then handle_interactive_message ev svc message from_number
          else log WARNING ''Unsupported message type'')))))))
       (\<lambda>e. log ERROR ''Error processing message'')"

definition process_status :: "env \<Rightarrow> json \<Rightarrow> unit io" where
  "process_status ev status =
     try_except
       (bindE (liftE (py_get status ''id'' JNull)) (\<lambda>message_id.
        bindE (liftE (py_get status ''status'' JNull)) (\<lambda>status_type.
        bindE (liftE (py_get status ''timestamp'' JNull)) (\<lambda>timestamp.
        bindE (update_message_status ev message_id status_type timestamp) (\<lambda>_.
        returnE ())))))
       (\<lambda>e. log ERROR ''Error processing status'')"


section \<open>\<open>app/routers/webhook.py\<close>: the two endpoints\<close>

datatype content = PlainText string | JSONContent json

record http_response =
  status_code :: int
  content :: content

datatype http_exception = HTTPException int string

text \<open>
  \<open>verify_webhook\<close>, on its three required query parameters: the mode is checked
  first, then the token.
\<close>

definition verify_webhook ::
  "settings \<Rightarrow> string \<Rightarrow> string \<Rightarrow> string \<Rightarrow> world \<Rightarrow> (http_exception + http_response) \<times> world" where
  "verify_webhook cfg hub_mode hub_verify_token hub_challenge =
     (\<lambda>w. if hub_mode \<noteq> ''subscribe''
           then (Inl (HTTPException 400 ''Invalid hub.mode''),
                 snd (log WARNING ''Invalid hub.mode'' w))
           else if hub_verify_token \<noteq> WEBHOOK_VERIFY_TOKEN cfg
           then (Inl (HTTPException 403 ''Invalid verify token''),
                 snd (log WARNING ''Webhook verification failed: Invalid token'' w))
           else (Inr \<lparr> status_code = 200, content = PlainText hub_challenge \<rparr>, w))"

text \<open>
  An incoming POST: its headers, its raw body, and what \<open>await request.json()\<close> gives
  for that body (the decoded value or the decoder's exception).
\<close>

record request =
  request_headers :: "(string \<times> string) list"
  request_body :: string
  request_json :: "py_error + json"

definition ok_response :: http_response where
  "ok_response = \<lparr> status_code = 200, content = JSONContent (JObj [(''status'', JStr ''ok'')]) \<rparr>"

definition error_response :: http_response where
  "error_response = \<lparr> status_code = 200, content = JSONContent (JObj [(''status'', JStr ''error'')]) \<rparr>"

text \<open>The body of \<open>for change in entry.get("changes", [])\<close>.\<close>

definition process_change :: "env \<Rightarrow> WhatsAppService \<Rightarrow> json \<Rightarrow> unit io" where
  "process_change ev svc change =
     bindE (liftE (py_get change ''value'' (JObj []))) (\<lambda>value.
     bindE (liftE (py_in ''messages'' value)) (\<lambda>has_messages.
     bindE (if has_messages
            then bindE (liftE (py_get value ''messages'' (JArr []))) (\<lambda>ms.
                 bindE (liftE (py_iter ms)) (\<lambda>ms_list.
                 for_each (\<lambda>message. process_message ev svc message value) ms_list))
            else returnE ()) (\<lambda>_.
     bindE (liftE (py_in ''statuses'' value)) (\<lambda>has_statuses.
       if has_statuses
       then bindE (liftE (py_get value ''statuses'' (JArr []))) (\<lambda>ss.
            bindE (liftE (py_iter ss)) (\<lambda>ss_list.
            for_each (process_status ev) ss_list))
       else returnE ()))))"

text \<open>The body of \<open>for entry in body.get("entry", [])\<close>.\<close>

definition process_entry :: "env \<Rightarrow> WhatsAppService \<Rightarrow> json \<Rightarrow> unit io" where
  "process_entry ev svc entry =
     bindE (liftE (py_get entry ''changes'' (JArr []))) (\<lambda>changes.
     bindE (liftE (py_iter changes)) (\<lambda>changes_list.
     for_each (process_change ev svc) changes_list))"

text \<open>
  \<open>receive_message\<close>: first the block inside \<open>try\<close>, then the handler around it.
  The request headers are not read (the signature check is commented out in the source);
  every exception ends in the 200 error answer.
\<close>

definition receive_message_try :: "env \<Rightarrow> WhatsAppService \<Rightarrow> request \<Rightarrow> http_response io" where
  "receive_message_try ev svc req =
     bindE (liftE (request_json req)) (\<lambda>body.
     bindE (liftE (py_in ''entry'' body)) (\<lambda>has_entry.
       if \<not> has_entry
       then bindE (log WARNING ''No entry in webhook body'') (\<lambda>_. returnE ok_response)
       else bindE (liftE (py_get body ''entry'' (JArr []))) (\<lambda>entries.
            bindE (liftE (py_iter entries)) (\<lambda>entries_list.
            bindE (for_each (process_entry ev svc) entries_list) (\<lambda>_.
            returnE ok_response)))))"

definition receive_message :: "env \<Rightarrow> WhatsAppService \<Rightarrow> request \<Rightarrow> http_response io" where
  "receive_message ev svc req =
     try_except (receive_message_try ev svc req)
       (\<lambda>e. bindE (log ERROR ''Error processing webhook'') (\<lambda>_. returnE error_response))"

text \<open>
  \<open>verify_signature\<close>, which no path calls. The HMAC-SHA256 hex digest is a parameter;
  \<open>signature.split("=")\<close> must give exactly two parts, anything else raises inside the
  \<open>try\<close> and gives \<open>False\<close>.
\<close>

fun split_eq :: "string \<Rightarrow> string list" where
  "split_eq [] = [[]]"
| "split_eq (c # cs) =
     (if c = CHR ''='' then [] # split_eq cs
      else case split_eq cs of [] \<Rightarrow> [[c]] | p # ps \<Rightarrow> (c # p) # ps)"

definition verify_signature ::
  "(string \<Rightarrow> string \<Rightarrow> string) \<Rightarrow> settings \<Rightarrow> string \<Rightarrow> string option \<Rightarrow> bool" where
  "verify_signature hmac_sha256_hexdigest cfg payload signature =
     (case signature of
        None \<Rightarrow> False
      | Some sig \<Rightarrow>
          if sig = [] then False
          else case split_eq sig of
                 [hash_type, hash_value] \<Rightarrow>
                   if hash_type \<noteq> ''sha256'' then False
                   else hmac_sha256_hexdigest (WHATSAPP_API_TOKEN cfg) payload = hash_value
               | _ \<Rightarrow> False)"

section \<open>Reading payloads, and sample surroundings\<close>

text \<open>The value at a path of keys inside nested objects.\<close>

fun json_path :: "string list \<Rightarrow> json \<Rightarrow> json option" where
  "json_path [] v = Some v"
| "json_path (k # ks) (JObj kvs) = (case map_of kvs k of None \<Rightarrow> None | Some v \<Rightarrow> json_path ks v)"
| "json_path (k # ks) v = None"

text \<open>A button dict that has both keys the payload reads.\<close>

definition complete_button :: "(string \<times> string) list \<Rightarrow> bool" where
  "complete_button btn = (map_of btn ''id'' \<noteq> None \<and> map_of btn ''title'' \<noteq> None)"

text \<open>
  Surroundings in which every POST meets the same outcome, the database never fails,
  the clock shows the number of earlier readings, and \<open>str()\<close>
  gives a fixed text.
\<close>

definition answering :: "http_outcome \<Rightarrow> env" where
  "answering out =
     \<lparr> respond = (\<lambda>n p. out), db_fails = (\<lambda>n. False), utcnow = (\<lambda>n. n), py_str = (\<lambda>v. ''?'') \<rparr>"

definition accepting :: env where
  "accepting = answering (Response 200 (Some (JObj [])))"

definition sample_settings :: settings where
  "sample_settings =
     \<lparr> WHATSAPP_API_TOKEN = ''token'', WHATSAPP_PHONE_NUMBER_ID = ''42'',
       WEBHOOK_VERIFY_TOKEN = ''secret'', WHATSAPP_API_VERSION = ''v18.0'',
       WHATSAPP_API_BASE_URL = ''https://graph.facebook.com'' \<rparr>"

definition sample_service :: WhatsAppService where
  "sample_service = WhatsAppService_init sample_settings"

definition empty_world :: world where
  "empty_world = \<lparr> posts = [], messages = [], logs = [], db_ops = 0, clock_reads = 0 \<rparr>"

section \<open>The event sequence of a delivery, as the specification words it\<close>

text \<open>
  The specification describes a normalizer: a delivery is flattened into a sequence of
  events, entries in array order, changes in array order, and within a change the
  messages before the statuses, each in array order; a body without the entries key
  gives the empty sequence. The source has no such function (its loops process each
  event as they meet it), so \<open>normalize_body\<close> is written from the specification's words and
  compared with the loops of \<open>receive_message\<close> below. A message event carries the
  \<open>value\<close> object it came in, which the source hands to \<open>process_message\<close>.
\<close>

datatype event = MessageReceived json json | StatusUpdate json

text \<open>The value under a key of an object, and the elements of an array that may be absent.\<close>

fun obj_field :: "json \<Rightarrow> string \<Rightarrow> json option" where
  "obj_field (JObj kvs) k = map_of kvs k"
| "obj_field v k = None"

fun elements :: "json option \<Rightarrow> json list" where
  "elements (Some (JArr xs)) = xs"
| "elements v = []"

definition change_events :: "json \<Rightarrow> event list" where
  "change_events change =
     (let value = (case obj_field change ''value'' of Some v \<Rightarrow> v | None \<Rightarrow> JObj [])
      in map (\<lambda>m. MessageReceived m value) (elements (obj_field value ''messages''))
         @ map StatusUpdate (elements (obj_field value ''statuses'')))"

definition entry_events :: "json \<Rightarrow> event list" where
  "entry_events entry = concat (map change_events (elements (obj_field entry ''changes'')))"

definition normalize_body :: "json \<Rightarrow> event list" where
  "normalize_body body = concat (map entry_events (elements (obj_field body ''entry'')))"

text \<open>What the router does with one event.\<close>

fun handle_event :: "env \<Rightarrow> WhatsAppService \<Rightarrow> event \<Rightarrow> unit io" where
  "handle_event ev svc (MessageReceived message value) = process_message ev svc message value"
| "handle_event ev svc (StatusUpdate status) = process_status ev status"

text \<open>
  A body that has the shape of the provider's envelope: an object whose \<open>entry\<close>, when
  present, is an array of objects; the \<open>changes\<close> of each, when present, an array of
  objects; the \<open>value\<close> of each, when present, an object whose \<open>messages\<close> and
  \<open>statuses\<close>, when present, are arrays.
\<close>

fun absent_or_array :: "json option \<Rightarrow> bool" where
  "absent_or_array None = True"
| "absent_or_array (Some (JArr xs)) = True"
| "absent_or_array (Some v) = False"

fun well_formed_value :: "json option \<Rightarrow> bool" where
  "well_formed_value None = True"
| "well_formed_value (Some (JObj vkv)) =
     (absent_or_array (map_of vkv ''messages'') \<and> absent_or_array (map_of vkv ''statuses''))"
| "well_formed_value (Some v) = False"

fun well_formed_change :: "json \<Rightarrow> bool" where
  "well_formed_change (JObj ckv) = well_formed_value (map_of ckv ''value'')"
| "well_formed_change v = False"

fun well_formed_changes :: "json option \<Rightarrow> bool" where
  "well_formed_changes None = True"
| "well_formed_changes (Some (JArr cs)) = list_all well_formed_change cs"
| "well_formed_changes (Some v) = False"

fun well_formed_entry :: "json \<Rightarrow> bool" where
  "well_formed_entry (JObj ekv) = well_formed_changes (map_of ekv ''changes'')"
| "well_formed_entry v = False"

fun well_formed_entries :: "json option \<Rightarrow> bool" where
  "well_formed_entries None = True"
| "well_formed_entries (Some (JArr es)) = list_all well_formed_entry es"
| "well_formed_entries (Some v) = False"

fun well_formed_envelope :: "json \<Rightarrow> bool" where
  "well_formed_envelope (JObj bkv) = well_formed_entries (map_of bkv ''entry'')"
| "well_formed_envelope v = False"

text \<open>The message types that \<open>process_message\<close> dispatches on.\<close>

definition recognized_types :: "json list" where
  "recognized_types = [JStr ''text'', JStr ''image'', JStr ''document'', JStr ''audio'',
                       JStr ''video'', JStr ''location'', JStr ''interactive'']"

text \<open>A delivery with one message, and requests carrying such deliveries.\<close>

definition delivery_of :: "json \<Rightarrow> json" where
  "delivery_of message =
     JObj [(''entry'', JArr [JObj [(''id'', JStr ''123456789''),
             (''changes'', JArr [JObj [(''value'', JObj [(''messaging_product'', JStr ''whatsapp''),
                                                      (''messages'', JArr [message])]),
                                    (''field'', JStr ''messages'')]])]])]"

definition text_message :: "string \<Rightarrow> json" where
  "text_message body =
     JObj [(''from'', JStr ''1234567890''), (''id'', JStr ''wamid.test123''),
           (''timestamp'', JStr ''1234567890''), (''type'', JStr ''text''),
           (''text'', JObj [(''body'', JStr body)])]"

definition request_of :: "json \<Rightarrow> request" where
  "request_of body = \<lparr> request_headers = [], request_body = [], request_json = Inr body \<rparr>"


section \<open>Basic facts about sequencing and the collaborators\<close>

lemma bindE_returnE [simp]: "bindE (returnE x) f = f x"
  by (simp add: bindE_def returnE_def)

lemma bindE_liftE_Inr [simp]: "bindE (liftE (Inr x)) f = f x"
  by (simp add: bindE_def liftE_def)

lemma bindE_liftE_Inl [simp]: "bindE (liftE (Inl e)) f = raiseE e"
  by (simp add: bindE_def liftE_def raiseE_def)

lemma bindE_raiseE [simp]: "bindE (raiseE e) f = raiseE e"
  by (simp add: bindE_def raiseE_def)

text \<open>What \<open>_send_request\<close> does, outcome by outcome.\<close>

lemma send_request_cases:
  "send_request ev svc url payload w =
     (let p = \<lparr> post_url = url, post_json = payload, post_headers = headers svc \<rparr>;
          w1 = w\<lparr>posts := posts w @ [p]\<rparr>
      in case respond ev (length (posts w)) p of
           ConnectionFailed \<Rightarrow>
             (Inl ClientError, w1\<lparr>logs := logs w @ [(ERROR, ''Error sending WhatsApp message'')]\<rparr>)
         | Response st None \<Rightarrow>
             (Inl ContentTypeError, w1\<lparr>logs := logs w @ [(ERROR, ''Error sending WhatsApp message'')]\<rparr>)
         | Response st (Some d) \<Rightarrow>
             if st = 200 then (Inr d, w1)
             else (Inl (ApiError d),
                   w1\<lparr>logs := logs w @ [(ERROR, ''WhatsApp API error''),
                                         (ERROR, ''Error sending WhatsApp message'')]\<rparr>))"
  by (simp add: send_request_def try_except_def bindE_def log_def raiseE_def Let_def
           split: http_outcome.splits option.splits)

lemma send_request_posts:
  "posts (snd (send_request ev svc url payload w)) =
     posts w @ [\<lparr> post_url = url, post_json = payload, post_headers = headers svc \<rparr>]"
  by (simp add: send_request_cases Let_def split: http_outcome.splits option.splits)

lemma update_first_no_match:
  "list_all (\<lambda>d. \<not> P d) ds \<Longrightarrow> update_first P f ds = (ds, 0)"
  by (induction ds) auto


lemma map_of_dict_set:
  "map_of (dict_set k v d) k' = (if k' = k then Some v else map_of d k')"
  by (induction d) auto

lemma map_of_snoc:
  "map_of (d @ [(k, v)]) k' =
     (case map_of d k' of Some x \<Rightarrow> Some x | None \<Rightarrow> if k' = k then Some v else None)"
  by (induction d) auto

lemma reply_buttons_length: "reply_buttons btns = Inr js \<Longrightarrow> length js = length btns"
  by (induction btns arbitrary: js) (auto split: sum.splits)

lemma reply_buttons_total:
  "list_all complete_button btns \<Longrightarrow> \<exists>js. reply_buttons btns = Inr js"
  by (induction btns) (auto simp: complete_button_def reply_button_def subscript_def)

lemma action_of_with_header_footer:
  "map_of (with_header_footer h f d) ''action'' = map_of d ''action''"
  by (simp add: with_header_footer_def Let_def map_of_dict_set split: option.splits)

lemma fresh_oid_snoc:
  "fresh_oid (coll @ [d]) = max (oid_succ (map_of d ''_id'')) (fresh_oid coll)"
  by (simp add: fresh_oid_def)

text \<open>A successful save of a document that has no id of its own.\<close>

lemma save_message_inserts:
  assumes "map_of message_data ''_id'' = None" and "\<not> db_fails ev (db_ops w)"
  shows "save_message ev message_data w =
           (Inr (ObjectId (fresh_oid (messages w))),
            w\<lparr> clock_reads := Suc (Suc (clock_reads w)),
               db_ops := Suc (db_ops w),
               messages := messages w @
                 [dict_set ''updated_at'' (DateTime (utcnow ev (Suc (clock_reads w))))
                    (dict_set ''created_at'' (DateTime (utcnow ev (clock_reads w))) message_data)
                  @ [(''_id'', ObjectId (fresh_oid (messages w)))]] \<rparr>)"
  using assms
  by (simp add: save_message_def try_except_def bindE_def read_clock_def insert_one_def
        map_of_dict_set Let_def)


text \<open>A save of a document whose id is already stored is rejected and stores nothing.\<close>

lemma save_message_duplicate:
  assumes "map_of message_data ''_id'' = Some i"
    and "Some i \<in> set (map (\<lambda>d'. map_of d' ''_id'') (messages w))"
    and "\<not> db_fails ev (db_ops w)"
  shows "fst (save_message ev message_data w) = Inl DuplicateKeyError
       \<and> messages (snd (save_message ev message_data w)) = messages w"
  using assms
  by (simp add: save_message_def try_except_def bindE_def read_clock_def insert_one_def
        map_of_dict_set Let_def log_def raiseE_def)

lemma save_message_posts: "posts (snd (save_message ev d w)) = posts w"
  by (simp add: save_message_def try_except_def bindE_def read_clock_def insert_one_def
        log_def raiseE_def Let_def split: option.splits)

lemma save_message_fails:
  "db_fails ev (db_ops w) \<Longrightarrow> \<exists>e. fst (save_message ev d w) = Inl e"
  by (simp add: save_message_def try_except_def bindE_def read_clock_def insert_one_def
        log_def raiseE_def Let_def)

lemma process_message_returns: "fst (process_message ev svc message value w) = Inr ()"
  by (simp add: process_message_def try_except_def log_def split: prod.splits sum.splits)

lemma process_status_returns: "fst (process_status ev status w) = Inr ()"
  by (simp add: process_status_def try_except_def log_def split: prod.splits sum.splits)

lemma posts_try_except_log:
  "posts (snd (try_except m (\<lambda>e. log l s) w)) = posts (snd (m w))"
  by (cases "m w") (simp add: try_except_def log_def split: sum.splits)

text \<open>
  The frame of process_message: the read receipt, the save, then a step \<open>H\<close> that posts
  the same list whatever the state; the handler around them only logs.
\<close>

lemma mark_save_then_posts:
  assumes H: "\<And>w'. posts (snd (H w')) = posts w' @ hs"
    and noid: "map_of d ''_id'' = None"
  shows "posts (snd (try_except
                  (bindE (mark_as_read ev svc i) (\<lambda>_. bindE (save_message ev d) (\<lambda>_. H)))
                  (\<lambda>e. log ERROR s) w))
         = posts w
           @ [\<lparr> post_url = api_url svc @ ''/messages'',
                 post_json = JObj [(''messaging_product'', JStr ''whatsapp''),
                                   (''status'', JStr ''read''), (''message_id'', i)],
                 post_headers = headers svc \<rparr>]
           @ (if (\<exists>r. respond ev (length (posts w))
                        \<lparr> post_url = api_url svc @ ''/messages'',
                          post_json = JObj [(''messaging_product'', JStr ''whatsapp''),
                                            (''status'', JStr ''read''), (''message_id'', i)],
                          post_headers = headers svc \<rparr> = Response 200 (Some r))
                 \<and> \<not> db_fails ev (db_ops w)
              then hs else [])"
proof -
  let ?p = "\<lparr> post_url = api_url svc @ ''/messages'',
                 post_json = JObj [(''messaging_product'', JStr ''whatsapp''),
                                   (''status'', JStr ''read''), (''message_id'', i)],
                 post_headers = headers svc \<rparr>"
  let ?w1 = "w\<lparr>posts := posts w @ [?p]\<rparr>"
  let ?body = "bindE (mark_as_read ev svc i) (\<lambda>_. bindE (save_message ev d) (\<lambda>_. H))"
  have goal: "posts (snd (try_except ?body (\<lambda>e. log ERROR s) w)) = posts (snd (?body w))"
    by (rule posts_try_except_log)
  show ?thesis
  proof (cases "\<exists>r. respond ev (length (posts w)) ?p = Response 200 (Some r)")
    case True
    then obtain r where r: "respond ev (length (posts w)) ?p = Response 200 (Some r)" ..
    have m: "mark_as_read ev svc i w = (Inr r, ?w1)"
      by (simp add: mark_as_read_def send_request_cases r)
    have b1: "?body w = bindE (save_message ev d) (\<lambda>_. H) ?w1"
      by (simp add: bindE_def m)
    obtain x w2 where sw: "save_message ev d ?w1 = (x, w2)"
      by (cases "save_message ev d ?w1")
    have "posts (snd (save_message ev d ?w1)) = posts ?w1"
      by (rule save_message_posts)
    then have w2: "posts w2 = posts w @ [?p]"
      using sw by simp
    show ?thesis
    proof (cases "db_fails ev (db_ops w)")
      case True
      then have "db_fails ev (db_ops ?w1)" by simp
      from save_message_fails [OF this] obtain e where "fst (save_message ev d ?w1) = Inl e" ..
      then have sw': "save_message ev d ?w1 = (Inl e, w2)"
        using sw by simp
      have "?body w = (Inl e, w2)"
        unfolding b1 by (simp add: bindE_def sw')
      then show ?thesis
        using True by (simp add: goal w2)
    next
      case False
      then have ok: "\<not> db_fails ev (db_ops ?w1)" by simp
      have "fst (save_message ev d ?w1) = Inr (ObjectId (fresh_oid (messages ?w1)))"
        by (simp add: save_message_inserts [OF noid ok])
      then have sw': "save_message ev d ?w1 = (Inr (ObjectId (fresh_oid (messages ?w1))), w2)"
        using sw by simp
      have "?body w = H w2"
        unfolding b1 by (simp add: bindE_def sw')
      then show ?thesis
        using False r by (simp add: goal H w2)
    qed
  next
    case False
    then have "\<exists>e. fst (mark_as_read ev svc i w) = Inl e"
      by (auto simp: mark_as_read_def send_request_cases Let_def split: http_outcome.splits option.splits)
    then obtain e where e: "fst (mark_as_read ev svc i w) = Inl e" ..
    obtain x w1 where mw: "mark_as_read ev svc i w = (x, w1)"
      by (cases "mark_as_read ev svc i w")
    have mw': "mark_as_read ev svc i w = (Inl e, w1)"
      using e mw by simp
    have "posts (snd (mark_as_read ev svc i w)) = posts w @ [?p]"
      by (simp add: mark_as_read_def send_request_posts)
    then have w1: "posts w1 = posts w @ [?p]"
      using mw by simp
    have "?body w = (Inl e, w1)"
      by (simp add: bindE_def mw')
    then show ?thesis
      using False by (simp add: goal w1)
  qed
qed

lemma process_message_unsupported:
  assumes "py_get (JObj kvs) ''type'' JNull = Inr t" and "t \<notin> set recognized_types"
  shows "process_message ev svc (JObj kvs) value =
     try_except
       (bindE (mark_as_read ev svc (case map_of kvs ''id'' of Some v \<Rightarrow> v | None \<Rightarrow> JNull)) (\<lambda>_.
        bindE (save_message ev
                 [(''message_id'', J (case map_of kvs ''id'' of Some v \<Rightarrow> v | None \<Rightarrow> JNull)),
                  (''from'', J (case map_of kvs ''from'' of Some v \<Rightarrow> v | None \<Rightarrow> JNull)),
                  (''type'', J t),
                  (''timestamp'', J (case map_of kvs ''timestamp'' of Some v \<Rightarrow> v | None \<Rightarrow> JNull)),
                  (''data'', J (JObj kvs))]) (\<lambda>_.
        log WARNING ''Unsupported message type'')))
       (\<lambda>e. log ERROR ''Error processing message'')"
  using assms by (auto simp: process_message_def recognized_types_def)

lemma for_each_step:
  "fst (f x w) = Inr () \<Longrightarrow> for_each f (x # xs) w = for_each f xs (snd (f x w))"
  by (cases "f x w") (simp add: bindE_def)

text \<open>The whole effect of \<open>process_message\<close> on a message of unrecognized type.\<close>

lemma process_message_unsupported_effect:
  assumes "py_get (JObj kvs) ''type'' JNull = Inr t" and "t \<notin> set recognized_types"
  shows "process_message ev svc (JObj kvs) value w =
     (let i = (case map_of kvs ''id'' of Some v \<Rightarrow> v | None \<Rightarrow> JNull);
          p = \<lparr> post_url = api_url svc @ ''/messages'',
                post_json = JObj [(''messaging_product'', JStr ''whatsapp''),
                                  (''status'', JStr ''read''), (''message_id'', i)],
                post_headers = headers svc \<rparr>;
          w1 = w\<lparr>posts := posts w @ [p]\<rparr>
      in case respond ev (length (posts w)) p of
           ConnectionFailed \<Rightarrow>
             (Inr (), w1\<lparr>logs := logs w @ [(ERROR, ''Error sending WhatsApp message''),
                                              (ERROR, ''Error processing message'')]\<rparr>)
         | Response st None \<Rightarrow>
             (Inr (), w1\<lparr>logs := logs w @ [(ERROR, ''Error sending WhatsApp message''),
                                              (ERROR, ''Error processing message'')]\<rparr>)
         | Response st (Some d) \<Rightarrow>
             if st \<noteq> 200
             then (Inr (), w1\<lparr>logs := logs w @ [(ERROR, ''WhatsApp API error''),
                                                   (ERROR, ''Error sending WhatsApp message''),
                                                   (ERROR, ''Error processing message'')]\<rparr>)
             else if db_fails ev (db_ops w)
             then (Inr (), w1\<lparr>clock_reads := Suc (Suc (clock_reads w)),
                               db_ops := Suc (db_ops w),
                               logs := logs w @ [(ERROR, ''Error saving message''),
                                                 (ERROR, ''Error processing message'')]\<rparr>)
             else (Inr (), w1\<lparr>clock_reads := Suc (Suc (clock_reads w)),
                               db_ops := Suc (db_ops w),
                               messages := messages w @
                                 [[(''message_id'', J i),
                                   (''from'', J (case map_of kvs ''from'' of Some v \<Rightarrow> v | None \<Rightarrow> JNull)),
                                   (''type'', J t),
                                   (''timestamp'', J (case map_of kvs ''timestamp'' of Some v \<Rightarrow> v | None \<Rightarrow> JNull)),
                                   (''data'', J (JObj kvs)),
                                   (''created_at'', DateTime (utcnow ev (clock_reads w))),
                                   (''updated_at'', DateTime (utcnow ev (Suc (clock_reads w)))),
                                   (''_id'', ObjectId (fresh_oid (messages w)))]],
                               logs := logs w @ [(WARNING, ''Unsupported message type'')]\<rparr>))"
  unfolding process_message_unsupported [OF assms]
  by (simp add: mark_as_read_def send_request_cases save_message_def insert_one_def read_clock_def
        try_except_def bindE_def log_def raiseE_def Let_def
        split: http_outcome.splits option.splits)

lemma menu_is_menu: "py_lower (py_strip ''menu'') = ''menu''"
  by (simp add: py_lower_def py_strip_def is_space_def lower_char_def)

lemma process_message_menu:
  assumes "map_of mkv ''type'' = Some (JStr ''text'')"
    and "map_of mkv ''text'' = Some (JObj tkv)"
    and "map_of tkv ''body'' = Some (JStr ''menu'')"
  shows "process_message ev svc (JObj mkv) value =
     try_except
       (bindE (mark_as_read ev svc (case map_of mkv ''id'' of Some v \<Rightarrow> v | None \<Rightarrow> JNull)) (\<lambda>_.
        bindE (save_message ev
                 [(''message_id'', J (case map_of mkv ''id'' of Some v \<Rightarrow> v | None \<Rightarrow> JNull)),
                  (''from'', J (case map_of mkv ''from'' of Some v \<Rightarrow> v | None \<Rightarrow> JNull)),
                  (''type'', J (JStr ''text'')),
                  (''timestamp'', J (case map_of mkv ''timestamp'' of Some v \<Rightarrow> v | None \<Rightarrow> JNull)),
                  (''data'', J (JObj mkv))]) (\<lambda>_.
        discard (send_list ev svc (case map_of mkv ''from'' of Some v \<Rightarrow> v | None \<Rightarrow> JNull)
                   ''Select an option from the menu:'' ''View Options'' menu_sections None None))))
       (\<lambda>e. log ERROR ''Error processing message'')"
  using assms by (simp add: process_message_def handle_text_message_def menu_is_menu)

lemma map_of_Some_key: "map_of kvs k = Some v \<Longrightarrow> k \<in> fst ` set kvs"
  by (metis domI dom_map_of_conv_image_fst)

lemma discard_posts: "posts (snd (discard m w)) = posts (snd (m w))"
  by (cases "m w") (simp add: discard_def bindE_def returnE_def split: sum.splits)

lemma process_message_pair:
  "process_message ev svc message value w = (Inr (), snd (process_message ev svc message value w))"
  using process_message_returns [of ev svc message "value" w]
  by (cases "process_message ev svc message value w") simp

text \<open>A delivery with exactly one message and no statuses runs process_message once.\<close>

lemma single_message_delivery:
  assumes "request_json req = Inr (JObj bkv)"
    and "map_of bkv ''entry'' = Some (JArr [JObj ekv])"
    and "map_of ekv ''changes'' = Some (JArr [JObj ckv])"
    and "map_of ckv ''value'' = Some (JObj vkv)"
    and "map_of vkv ''messages'' = Some (JArr [message])"
    and "''statuses'' \<notin> fst ` set vkv"
  shows "receive_message ev svc req w
           = (Inr ok_response, snd (process_message ev svc message (JObj vkv) w))"
proof -
  have k1: "''entry'' \<in> fst ` set bkv" and k2: "''messages'' \<in> fst ` set vkv"
    using assms(2,5) by (auto dest: map_of_Some_key)
  obtain w' where pm: "process_message ev svc message (JObj vkv) w = (Inr (), w')"
    using process_message_pair by blast
  have c: "process_change ev svc (JObj ckv) w = (Inr (), w')"
    using assms(4,5,6) k2
    by (simp add: process_change_def bindE_def returnE_def liftE_def pm)
  have e: "process_entry ev svc (JObj ekv) w = (Inr (), w')"
    using assms(3) by (simp add: process_entry_def bindE_def returnE_def liftE_def c)
  have t: "receive_message_try ev svc req w = (Inr ok_response, w')"
    using assms(1,2) k1 by (simp add: receive_message_try_def bindE_def returnE_def liftE_def e)
  show ?thesis
    by (simp add: receive_message_def try_except_def t pm)
qed

lemma send_list_posts:
  "posts (snd (discard (send_list ev svc to body_text button_text sections None None) w))
     = posts w @ [\<lparr> post_url = api_url svc @ ''/messages'',
                     post_json = interactive_payload to
                       [(''type'', JStr ''list''),
                        (''body'', JObj [(''text'', JStr body_text)]),
                        (''action'', JObj [(''button'', JStr button_text),
                                           (''sections'', JArr sections)])],
                     post_headers = headers svc \<rparr>]"
  by (simp add: discard_posts send_list_def send_request_posts with_header_footer_def)

lemma receive_message_try_ok:
  "fst (receive_message_try ev svc req w) = Inr r \<Longrightarrow> r = ok_response"
  by (auto simp: receive_message_try_def bindE_def liftE_def returnE_def log_def
           split: sum.splits prod.splits if_splits)

lemma ok_not_error: "ok_response \<noteq> error_response"
  by (simp add: ok_response_def error_response_def)


lemma bindE_assoc: "bindE (bindE m f) g = bindE m (\<lambda>x. bindE (f x) g)"
  by (auto simp: bindE_def fun_eq_iff split: prod.splits sum.splits)

lemma for_each_append:
  "for_each f (xs @ ys) = bindE (for_each f xs) (\<lambda>_. for_each f ys)"
  by (induction xs) (simp_all add: bindE_assoc)

lemma for_each_map: "for_each f (map g xs) = for_each (\<lambda>x. f (g x)) xs"
  by (induction xs) simp_all

lemma for_each_concat:
  "list_all (\<lambda>x. g x = for_each f (h x)) xs \<Longrightarrow> for_each g xs = for_each f (concat (map h xs))"
  by (induction xs) (simp_all add: for_each_append)

lemma for_each_returns:
  assumes "\<And>x w. fst (f x w) = Inr ()"
  shows "fst (for_each f xs w) = Inr ()"
proof (induction xs arbitrary: w)
  case Nil
  show ?case by (simp add: returnE_def)
next
  case (Cons x xs)
  obtain w' where "f x w = (Inr (), w')"
    using assms [of x w] by (cases "f x w") simp
  then show ?case
    using Cons.IH [of w'] by (simp add: bindE_def)
qed

lemma handle_event_returns: "fst (handle_event ev svc e w) = Inr ()"
  by (cases e) (simp_all add: process_message_returns process_status_returns)

lemma key_present: "(k \<in> fst ` set kvs) = (map_of kvs k \<noteq> None)"
  by (simp add: map_of_eq_None_iff)

text \<open>The loops over one value: its messages, then its statuses.\<close>

lemma process_value_events:
  assumes "absent_or_array (map_of vkv ''messages'')" and "absent_or_array (map_of vkv ''statuses'')"
  shows "bindE (liftE (py_in ''messages'' (JObj vkv))) (\<lambda>has_messages.
         bindE (if has_messages
                then bindE (liftE (py_get (JObj vkv) ''messages'' (JArr []))) (\<lambda>ms.
                     bindE (liftE (py_iter ms)) (\<lambda>ms_list.
                     for_each (\<lambda>message. process_message ev svc message (JObj vkv)) ms_list))
                else returnE ()) (\<lambda>_.
         bindE (liftE (py_in ''statuses'' (JObj vkv))) (\<lambda>has_statuses.
           if has_statuses
           then bindE (liftE (py_get (JObj vkv) ''statuses'' (JArr []))) (\<lambda>ss.
                bindE (liftE (py_iter ss)) (\<lambda>ss_list.
                for_each (process_status ev) ss_list))
           else returnE ())))
       = for_each (handle_event ev svc)
           (map (\<lambda>m. MessageReceived m (JObj vkv)) (elements (map_of vkv ''messages''))
            @ map StatusUpdate (elements (map_of vkv ''statuses'')))"
proof -
  have m: "bindE (liftE (py_in ''messages'' (JObj vkv))) (\<lambda>has_messages.
             if has_messages
                then bindE (liftE (py_get (JObj vkv) ''messages'' (JArr []))) (\<lambda>ms.
                     bindE (liftE (py_iter ms)) (\<lambda>ms_list.
                     for_each (\<lambda>message. process_message ev svc message (JObj vkv)) ms_list))
                else returnE ())
           = for_each (handle_event ev svc)
               (map (\<lambda>m. MessageReceived m (JObj vkv)) (elements (map_of vkv ''messages'')))"
    using assms(1)
    by (cases "map_of vkv ''messages''" rule: absent_or_array.cases)
       (simp_all add: key_present for_each_map)
  have s: "bindE (liftE (py_in ''statuses'' (JObj vkv))) (\<lambda>has_statuses.
           if has_statuses
           then bindE (liftE (py_get (JObj vkv) ''statuses'' (JArr []))) (\<lambda>ss.
                bindE (liftE (py_iter ss)) (\<lambda>ss_list.
                for_each (process_status ev) ss_list))
           else returnE ())
           = for_each (handle_event ev svc) (map StatusUpdate (elements (map_of vkv ''statuses'')))"
    using assms(2)
    by (cases "map_of vkv ''statuses''" rule: absent_or_array.cases)
       (simp_all add: key_present for_each_map)
  show ?thesis
    unfolding for_each_append m [symmetric] s [symmetric]
    by (simp add: key_present)
qed


lemma process_change_events:
  assumes "well_formed_change change"
  shows "process_change ev svc change = for_each (handle_event ev svc) (change_events change)"
proof -
  obtain ckv where c: "change = JObj ckv"
    using assms by (cases change) simp_all
  have wv: "well_formed_value (map_of ckv ''value'')"
    using assms c by simp
  show ?thesis
  proof (cases "map_of ckv ''value''")
    case None
    then show ?thesis
      by (simp add: c process_change_def change_events_def)
  next
    case (Some v)
    then obtain vkv where v: "v = JObj vkv"
      using wv by (cases v) simp_all
    have a: "absent_or_array (map_of vkv ''messages'')" "absent_or_array (map_of vkv ''statuses'')"
      using wv Some v by simp_all
    show ?thesis
      using process_value_events [OF a, of ev svc]
      by (simp add: c Some v process_change_def change_events_def)
  qed
qed

lemma process_entry_events:
  assumes "well_formed_entry entry"
  shows "process_entry ev svc entry = for_each (handle_event ev svc) (entry_events entry)"
proof -
  obtain ekv where e: "entry = JObj ekv"
    using assms by (cases entry) simp_all
  have wc: "well_formed_changes (map_of ekv ''changes'')"
    using assms e by simp
  show ?thesis
  proof (cases "map_of ekv ''changes''")
    case None
    then show ?thesis
      by (simp add: e process_entry_def entry_events_def)
  next
    case (Some v)
    then obtain cs where v: "v = JArr cs"
      using wc by (cases v) simp_all
    have "list_all well_formed_change cs"
      using wc Some v by simp
    then have "list_all (\<lambda>c. process_change ev svc c
                 = for_each (handle_event ev svc) (change_events c)) cs"
      by (simp add: list_all_iff process_change_events)
    then show ?thesis
      using Some v by (simp add: e process_entry_def entry_events_def for_each_concat)
  qed
qed


section \<open>The verification handshake\<close>

text \<open>
  Claim C5. The verification GET succeeds, with a 200 plain-text echo of the challenge,
  exactly when the mode is \<open>subscribe\<close> and the token equals the configured verify
  token; any other mode fails with status 400, and mode \<open>subscribe\<close> with another
  token fails with status 403.
\<close>

theorem verify_webhook_handshake:
  "((\<exists>r. fst (verify_webhook cfg m t c w) = Inr r) = (m = ''subscribe'' \<and> t = WEBHOOK_VERIFY_TOKEN cfg))
   \<and> (m = ''subscribe'' \<and> t = WEBHOOK_VERIFY_TOKEN cfg \<longrightarrow>
        fst (verify_webhook cfg m t c w) = Inr \<lparr> status_code = 200, content = PlainText c \<rparr>)
   \<and> (m \<noteq> ''subscribe'' \<longrightarrow>
        (\<exists>detail. fst (verify_webhook cfg m t c w) = Inl (HTTPException 400 detail)))
   \<and> (m = ''subscribe'' \<and> t \<noteq> WEBHOOK_VERIFY_TOKEN cfg \<longrightarrow>
        (\<exists>detail. fst (verify_webhook cfg m t c w) = Inl (HTTPException 403 detail)))"
  by (simp add: verify_webhook_def)

text \<open>The three outcomes at the sample settings, whose verify token is \<open>secret\<close>.\<close>

theorem verify_webhook_handshake_witness:
  "fst (verify_webhook sample_settings ''subscribe'' ''secret'' ''1158201444'' empty_world)
     = Inr \<lparr> status_code = 200, content = PlainText ''1158201444'' \<rparr>
   \<and> (\<exists>detail. fst (verify_webhook sample_settings ''unsubscribe'' ''secret'' ''1158201444'' empty_world)
        = Inl (HTTPException 400 detail))
   \<and> (\<exists>detail. fst (verify_webhook sample_settings ''subscribe'' ''guess'' ''1158201444'' empty_world)
        = Inl (HTTPException 403 detail))"
  using verify_webhook_handshake [of sample_settings "''subscribe''" "''secret''" "''1158201444''" empty_world]
        verify_webhook_handshake [of sample_settings "''unsubscribe''" "''secret''" "''1158201444''" empty_world]
        verify_webhook_handshake [of sample_settings "''subscribe''" "''guess''" "''1158201444''" empty_world]
  by (simp add: sample_settings_def)


section \<open>The transport client\<close>

text \<open>
  Claim C8, as the code has it. Every send makes exactly one POST attempt, whatever the
  outcome. A response with status 200 and a decodable body is returned as success. A
  decodable body with any other status, other 2xx statuses included, raises an error that
  carries the decoded body and not the status; an undecodable body and a failed
  connection raise their own errors.
\<close>

theorem send_request_single_attempt:
  "posts (snd (send_request ev svc url payload w)) =
     posts w @ [\<lparr> post_url = url, post_json = payload, post_headers = headers svc \<rparr>]
   \<and> (respond ev (length (posts w)) \<lparr> post_url = url, post_json = payload, post_headers = headers svc \<rparr>
         = Response 200 (Some d)
       \<longrightarrow> fst (send_request ev svc url payload w) = Inr d)
   \<and> (respond ev (length (posts w)) \<lparr> post_url = url, post_json = payload, post_headers = headers svc \<rparr>
         = Response st (Some d) \<and> st \<noteq> 200
       \<longrightarrow> fst (send_request ev svc url payload w) = Inl (ApiError d))
   \<and> (respond ev (length (posts w)) \<lparr> post_url = url, post_json = payload, post_headers = headers svc \<rparr>
         = Response st None
       \<longrightarrow> fst (send_request ev svc url payload w) = Inl ContentTypeError)
   \<and> (respond ev (length (posts w)) \<lparr> post_url = url, post_json = payload, post_headers = headers svc \<rparr>
         = ConnectionFailed
       \<longrightarrow> fst (send_request ev svc url payload w) = Inl ClientError)"
  by (simp add: send_request_posts) (simp add: send_request_cases Let_def)

text \<open>One input for each of the four outcomes.\<close>

theorem send_request_single_attempt_witness:
  "posts (snd (send_request accepting sample_service ''u'' (JObj []) empty_world)) =
     [\<lparr> post_url = ''u'', post_json = JObj [], post_headers = headers sample_service \<rparr>]
   \<and> fst (send_request accepting sample_service ''u'' (JObj []) empty_world) = Inr (JObj [])
   \<and> fst (send_request (answering (Response 404 (Some JNull))) sample_service ''u'' (JObj []) empty_world)
       = Inl (ApiError JNull)
   \<and> fst (send_request (answering (Response 200 None)) sample_service ''u'' (JObj []) empty_world)
       = Inl ContentTypeError
   \<and> fst (send_request (answering ConnectionFailed) sample_service ''u'' (JObj []) empty_world)
       = Inl ClientError"
  using send_request_single_attempt [of accepting sample_service "''u''" "JObj []" empty_world "JObj []" 200]
        send_request_single_attempt [of "answering (Response 404 (Some JNull))" sample_service "''u''" "JObj []" empty_world JNull 404]
        send_request_single_attempt [of "answering (Response 200 None)" sample_service "''u''" "JObj []" empty_world JNull 200]
        send_request_single_attempt [of "answering ConnectionFailed" sample_service "''u''" "JObj []" empty_world JNull 200]
  by (simp add: accepting_def answering_def empty_world_def)

text \<open>
  Claim C8 as stated fails: a 201 response with a well-formed body is not returned as
  success, and the error raised for it is the same as for a 500 with that body, so it
  does not carry the status.
\<close>

theorem send_request_rejects_201:
  "fst (send_request (answering (Response 201 (Some (JObj [(''messages'', JArr [])]))))
         sample_service ''https://graph.facebook.com/v18.0/42/messages'' (JObj []) empty_world)
     = Inl (ApiError (JObj [(''messages'', JArr [])]))
   \<and> fst (send_request (answering (Response 500 (Some (JObj [(''messages'', JArr [])]))))
         sample_service ''https://graph.facebook.com/v18.0/42/messages'' (JObj []) empty_world)
     = Inl (ApiError (JObj [(''messages'', JArr [])]))"
  by (simp add: send_request_cases answering_def empty_world_def)


section \<open>Status updates\<close>

text \<open>
  Claim C7. When no stored message document is matched by the message id of a status
  update, \<open>update_message_status\<close> returns \<open>False\<close>, raises nothing and leaves the
  collection as it was (and sends nothing), whether or not the database answers.
\<close>

theorem update_message_status_no_match:
  assumes "list_all (\<lambda>d. \<not> matches_eq (map_of d ''message_id'') message_id) (messages w)"
  shows "fst (update_message_status ev message_id status timestamp w) = Inr False
         \<and> messages (snd (update_message_status ev message_id status timestamp w)) = messages w
         \<and> posts (snd (update_message_status ev message_id status timestamp w)) = posts w"
  using update_first_no_match [OF assms]
  by (simp add: update_message_status_def update_one_def try_except_def bindE_def read_clock_def
        returnE_def log_def Let_def)

text \<open>A collection holding one message, and a status update for another id.\<close>

theorem update_message_status_no_match_witness:
  "list_all (\<lambda>d. \<not> matches_eq (map_of d ''message_id'') (JStr ''wamid.B''))
     (messages (empty_world\<lparr>messages := [[(''message_id'', J (JStr ''wamid.A''))]]\<rparr>))
   \<and> fst (update_message_status accepting (JStr ''wamid.B'') (JStr ''delivered'') (JStr ''1700000000'')
            (empty_world\<lparr>messages := [[(''message_id'', J (JStr ''wamid.A''))]]\<rparr>)) = Inr False
   \<and> messages (snd (update_message_status accepting (JStr ''wamid.B'') (JStr ''delivered'')
            (JStr ''1700000000'') (empty_world\<lparr>messages := [[(''message_id'', J (JStr ''wamid.A''))]]\<rparr>)))
       = [[(''message_id'', J (JStr ''wamid.A''))]]"
proof -
  have h: "list_all (\<lambda>d. \<not> matches_eq (map_of d ''message_id'') (JStr ''wamid.B''))
     (messages (empty_world\<lparr>messages := [[(''message_id'', J (JStr ''wamid.A''))]]\<rparr>))"
    by simp
  show ?thesis
    using h update_message_status_no_match [OF h, of accepting "JStr ''delivered''" "JStr ''1700000000''"]
    by simp
qed


section \<open>The signature header\<close>

text \<open>
  Claim C10. Two POST requests with the same body, whatever their headers (so whatever
  the value of \<open>X-Hub-Signature-256\<close>, or without it), get the same response and cause
  the same processing: the handler never reads a header and never calls
  \<open>verify_signature\<close>.
\<close>

theorem receive_message_ignores_headers:
  assumes "request_body r1 = request_body r2" and "request_json r1 = request_json r2"
  shows "receive_message ev svc r1 w = receive_message ev svc r2 w"
  using assms by (simp add: receive_message_def receive_message_try_def)

text \<open>The same empty delivery, once with a bogus signature and once with none.\<close>

theorem receive_message_ignores_headers_witness:
  "receive_message accepting sample_service
     \<lparr> request_headers = [(''X-Hub-Signature-256'', ''sha256=00'')], request_body = ''{}'',
       request_json = Inr (JObj []) \<rparr> empty_world
   = receive_message accepting sample_service
     \<lparr> request_headers = [], request_body = ''{}'', request_json = Inr (JObj []) \<rparr> empty_world"
  using receive_message_ignores_headers
          [of "\<lparr> request_headers = [(''X-Hub-Signature-256'', ''sha256=00'')], request_body = ''{}'',
                 request_json = Inr (JObj []) \<rparr>"
              "\<lparr> request_headers = [], request_body = ''{}'', request_json = Inr (JObj []) \<rparr>"
              accepting sample_service empty_world]
  by simp


section \<open>Building and sending a buttons message\<close>

text \<open>
  Claim C2, as the code has it. For a buttons list longer than 3, \<open>send_buttons\<close>
  raises \<open>ValueError\<close> and the state is untouched, so nothing is sent. For a list of
  length 0, 1, 2 or 3 whose entries all have \<open>id\<close> and \<open>title\<close>, a payload is built
  whose \<open>interactive.action.buttons\<close> has the length of the input, and exactly one
  POST is made with it; the empty list is not rejected.
\<close>

theorem send_buttons_limit:
  "(length buttons > 3 \<longrightarrow>
      send_buttons ev svc to body_text buttons header_text footer_text w
        = (Inl (ValueError ''Maximum 3 buttons allowed''), w))
   \<and> (length buttons \<le> 3 \<and> list_all complete_button buttons \<longrightarrow>
        (\<exists>payload bs.
           posts (snd (send_buttons ev svc to body_text buttons header_text footer_text w))
             = posts w @ [\<lparr> post_url = api_url svc @ ''/messages'', post_json = payload,
                              post_headers = headers svc \<rparr>]
           \<and> json_path [''interactive'', ''action'', ''buttons''] payload = Some (JArr bs)
           \<and> length bs = length buttons))"
proof (intro conjI impI)
  assume "length buttons > 3"
  then show "send_buttons ev svc to body_text buttons header_text footer_text w
        = (Inl (ValueError ''Maximum 3 buttons allowed''), w)"
    by (simp add: send_buttons_def raiseE_def)
next
  assume a: "length buttons \<le> 3 \<and> list_all complete_button buttons"
  then obtain js where js: "reply_buttons buttons = Inr js"
    using reply_buttons_total by blast
  have len: "length js = length buttons"
    using js by (rule reply_buttons_length)
  let ?payload = "interactive_payload to
             (with_header_footer header_text footer_text
                [(''type'', JStr ''button''),
                 (''body'', JObj [(''text'', JStr body_text)]),
                 (''action'', JObj [(''buttons'', JArr js)])])"
  have p: "posts (snd (send_buttons ev svc to body_text buttons header_text footer_text w))
             = posts w @ [\<lparr> post_url = api_url svc @ ''/messages'', post_json = ?payload,
                              post_headers = headers svc \<rparr>]"
    using a js by (simp add: send_buttons_def send_request_posts)
  have q: "json_path [''interactive'', ''action'', ''buttons''] ?payload = Some (JArr js)"
    by (simp add: interactive_payload_def action_of_with_header_footer)
  show "\<exists>payload bs.
           posts (snd (send_buttons ev svc to body_text buttons header_text footer_text w))
             = posts w @ [\<lparr> post_url = api_url svc @ ''/messages'', post_json = payload,
                              post_headers = headers svc \<rparr>]
           \<and> json_path [''interactive'', ''action'', ''buttons''] payload = Some (JArr bs)
           \<and> length bs = length buttons"
    using p q len by blast
qed

text \<open>Four buttons are refused; two buttons give a payload with two.\<close>

theorem send_buttons_limit_witness:
  "send_buttons accepting sample_service (JStr ''15550001111'') ''Choose''
      [[(''id'', ''1''), (''title'', ''A'')], [(''id'', ''2''), (''title'', ''B'')],
       [(''id'', ''3''), (''title'', ''C'')], [(''id'', ''4''), (''title'', ''D'')]] None None empty_world
     = (Inl (ValueError ''Maximum 3 buttons allowed''), empty_world)
   \<and> (\<exists>payload bs.
         posts (snd (send_buttons accepting sample_service (JStr ''15550001111'') ''Choose''
            [[(''id'', ''1''), (''title'', ''A'')], [(''id'', ''2''), (''title'', ''B'')]]
            None None empty_world))
           = [\<lparr> post_url = api_url sample_service @ ''/messages'', post_json = payload,
                  post_headers = headers sample_service \<rparr>]
         \<and> json_path [''interactive'', ''action'', ''buttons''] payload = Some (JArr bs)
         \<and> length bs = 2)"
  using send_buttons_limit [of "[[(''id'', ''1''), (''title'', ''A'')], [(''id'', ''2''), (''title'', ''B'')],
       [(''id'', ''3''), (''title'', ''C'')], [(''id'', ''4''), (''title'', ''D'')]]"
          accepting sample_service "JStr ''15550001111''" "''Choose''" None None empty_world]
        send_buttons_limit [of "[[(''id'', ''1''), (''title'', ''A'')], [(''id'', ''2''), (''title'', ''B'')]]"
          accepting sample_service "JStr ''15550001111''" "''Choose''" None None empty_world]
  by (simp add: complete_button_def empty_world_def numeral_2_eq_2)

text \<open>
  Claim C2 as stated fails for the empty list: no validation error is raised, the send
  succeeds, and the payload posted has an empty \<open>buttons\<close> array.
\<close>

theorem send_buttons_accepts_empty:
  "fst (send_buttons accepting sample_service (JStr ''15550001111'') ''Choose an action:'' []
          None None empty_world) = Inr (JObj [])
   \<and> map post_json (posts (snd (send_buttons accepting sample_service (JStr ''15550001111'')
          ''Choose an action:'' [] None None empty_world)))
     = [JObj [(''messaging_product'', JStr ''whatsapp''),
              (''recipient_type'', JStr ''individual''),
              (''to'', JStr ''15550001111''),
              (''type'', JStr ''interactive''),
              (''interactive'',
                 JObj [(''type'', JStr ''button''),
                       (''body'', JObj [(''text'', JStr ''Choose an action:'')]),
                       (''action'', JObj [(''buttons'', JArr [])])])]]"
  by (simp add: send_buttons_def send_request_cases accepting_def answering_def empty_world_def
        interactive_payload_def with_header_footer_def)


section \<open>Saving a message twice\<close>

text \<open>
  Claim C1, as the code has it. \<open>save_message\<close> is a pure insert. When the database
  answers, saving a record handed over as a fresh dict without an \<open>_id\<close> (as
  \<open>process_message\<close> builds it for every delivery) appends one new document and leaves
  the stored ones alone; so saving such a record twice stores two documents with that
  message id and different object ids, each stamped with \<open>created_at\<close> and
  \<open>updated_at\<close> read at its own save, and the first document keeps both stamps from
  the first save. Saving again the very dict of the first save, which by then carries the
  first object id, is rejected as a duplicate and stores nothing. In neither case is a
  stored document updated.
\<close>

theorem save_message_twice_inserts_twice:
  assumes "map_of message_data ''_id'' = None"
    and "\<not> db_fails ev (db_ops w)" and "\<not> db_fails ev (Suc (db_ops w))"
  shows "\<exists>d1 d2.
           messages (snd (save_message ev message_data w)) = messages w @ [d1]
         \<and> messages (snd (save_message ev message_data (snd (save_message ev message_data w))))
             = messages w @ [d1, d2]
         \<and> map_of d1 ''message_id'' = map_of message_data ''message_id''
         \<and> map_of d2 ''message_id'' = map_of message_data ''message_id''
         \<and> map_of d1 ''_id'' \<noteq> map_of d2 ''_id''
         \<and> map_of d1 ''created_at'' = Some (DateTime (utcnow ev (clock_reads w)))
         \<and> map_of d1 ''updated_at'' = Some (DateTime (utcnow ev (clock_reads w + 1)))
         \<and> map_of d2 ''created_at'' = Some (DateTime (utcnow ev (clock_reads w + 2)))
         \<and> map_of d2 ''updated_at'' = Some (DateTime (utcnow ev (clock_reads w + 3)))
         \<and> fst (save_message ev d1 (snd (save_message ev message_data w))) = Inl DuplicateKeyError
         \<and> messages (snd (save_message ev d1 (snd (save_message ev message_data w))))
             = messages w @ [d1]"
proof -
  let ?stamp = "\<lambda>n. dict_set ''updated_at'' (DateTime (utcnow ev (Suc n)))
                    (dict_set ''created_at'' (DateTime (utcnow ev n)) message_data)"
  let ?d1 = "?stamp (clock_reads w) @ [(''_id'', ObjectId (fresh_oid (messages w)))]"
  let ?w1 = "snd (save_message ev message_data w)"
  let ?d2 = "?stamp (Suc (Suc (clock_reads w))) @ [(''_id'', ObjectId (fresh_oid (messages w @ [?d1])))]"
  have s1: "save_message ev message_data w =
           (Inr (ObjectId (fresh_oid (messages w))),
            w\<lparr> clock_reads := Suc (Suc (clock_reads w)), db_ops := Suc (db_ops w),
               messages := messages w @ [?d1] \<rparr>)"
    using assms(1,2) by (rule save_message_inserts)
  have m1: "messages ?w1 = messages w @ [?d1]"
    and c1: "clock_reads ?w1 = Suc (Suc (clock_reads w))"
    and o1: "db_ops ?w1 = Suc (db_ops w)"
    by (simp_all add: s1)
  have ok2: "\<not> db_fails ev (db_ops ?w1)"
    using assms(3) by (simp add: o1)
  have m2: "messages (snd (save_message ev message_data ?w1)) = messages w @ [?d1, ?d2]"
    by (simp add: save_message_inserts [OF assms(1) ok2] m1 c1)
  have id1: "map_of ?d1 ''_id'' = Some (ObjectId (fresh_oid (messages w)))"
    using assms(1) by (simp add: map_of_snoc map_of_dict_set del: map_of_append)
  have id2: "map_of ?d2 ''_id'' = Some (ObjectId (fresh_oid (messages w @ [?d1])))"
    using assms(1) by (simp add: map_of_snoc map_of_dict_set del: map_of_append)
  have "fresh_oid (messages w @ [?d1]) = max (Suc (fresh_oid (messages w))) (fresh_oid (messages w))"
    by (simp only: fresh_oid_snoc id1 oid_succ.simps)
  then have "fresh_oid (messages w @ [?d1]) \<noteq> fresh_oid (messages w)"
    by simp
  then have ne: "map_of ?d1 ''_id'' \<noteq> map_of ?d2 ''_id''"
    unfolding id1 id2 by simp
  have k1: "map_of ?d1 ''message_id'' = map_of message_data ''message_id''"
    and k2: "map_of ?d2 ''message_id'' = map_of message_data ''message_id''"
    by (simp_all add: map_of_snoc map_of_dict_set del: map_of_append split: option.splits)
  have t: "map_of ?d1 ''created_at'' = Some (DateTime (utcnow ev (clock_reads w)))"
      "map_of ?d1 ''updated_at'' = Some (DateTime (utcnow ev (clock_reads w + 1)))"
      "map_of ?d2 ''created_at'' = Some (DateTime (utcnow ev (clock_reads w + 2)))"
      "map_of ?d2 ''updated_at'' = Some (DateTime (utcnow ev (clock_reads w + 3)))"
    by (simp_all add: map_of_snoc map_of_dict_set numeral_3_eq_3 del: map_of_append)
  have stored: "Some (ObjectId (fresh_oid (messages w)))
                  \<in> set (map (\<lambda>d'. map_of d' ''_id'') (messages ?w1))"
    unfolding m1 using id1 by simp
  have dup: "fst (save_message ev ?d1 ?w1) = Inl DuplicateKeyError
           \<and> messages (snd (save_message ev ?d1 ?w1)) = messages w @ [?d1]"
    using save_message_duplicate [OF id1 stored ok2] by (simp only: m1)
  show ?thesis
    using m1 m2 k1 k2 ne t dup by blast
qed

text \<open>Two saves of one record into an empty collection, with a database that answers.\<close>

theorem save_message_twice_inserts_twice_witness:
  "map_of [(''message_id'', J (JStr ''wamid.A''))] ''_id'' = None
   \<and> \<not> db_fails accepting (db_ops empty_world)
   \<and> \<not> db_fails accepting (Suc (db_ops empty_world))
   \<and> (\<exists>d1 d2.
         messages (snd (save_message accepting [(''message_id'', J (JStr ''wamid.A''))]
            (snd (save_message accepting [(''message_id'', J (JStr ''wamid.A''))] empty_world))))
           = [d1, d2]
       \<and> map_of d1 ''message_id'' = Some (J (JStr ''wamid.A''))
       \<and> map_of d2 ''message_id'' = Some (J (JStr ''wamid.A''))
       \<and> map_of d1 ''_id'' \<noteq> map_of d2 ''_id'')"
proof -
  have h1: "map_of [(''message_id'', J (JStr ''wamid.A''))] ''_id'' = None"
    by simp
  have h2: "\<not> db_fails accepting (db_ops empty_world)"
    by (simp add: accepting_def answering_def)
  have h3: "\<not> db_fails accepting (Suc (db_ops empty_world))"
    by (simp add: accepting_def answering_def)
  have m: "messages empty_world = []"
    by (simp add: empty_world_def)
  show ?thesis
    using h1 h2 h3 save_message_twice_inserts_twice [OF h1 h2 h3] unfolding m
    by auto
qed

text \<open>
  Claim C1 as stated fails: when the provider delivers the same text message twice and
  everything succeeds, the collection ends with two documents for its message id, and
  the first one's \<open>updated_at\<close> is still the reading taken at the first save.
\<close>

theorem redelivery_stores_two:
  "messages (snd (process_message accepting sample_service (text_message ''hi'') (JObj [])
      (snd (process_message accepting sample_service (text_message ''hi'') (JObj []) empty_world))))
   = [[(''message_id'', J (JStr ''wamid.test123'')), (''from'', J (JStr ''1234567890'')),
       (''type'', J (JStr ''text'')), (''timestamp'', J (JStr ''1234567890'')),
       (''data'', J (text_message ''hi'')),
       (''created_at'', DateTime 0), (''updated_at'', DateTime 1), (''_id'', ObjectId 0)],
      [(''message_id'', J (JStr ''wamid.test123'')), (''from'', J (JStr ''1234567890'')),
       (''type'', J (JStr ''text'')), (''timestamp'', J (JStr ''1234567890'')),
       (''data'', J (text_message ''hi'')),
       (''created_at'', DateTime 2), (''updated_at'', DateTime 3), (''_id'', ObjectId 1)]]"
  by (simp add: process_message_def handle_text_message_def send_text_message_def mark_as_read_def
        send_request_cases save_message_def insert_one_def read_clock_def discard_def
        try_except_def bindE_def liftE_def returnE_def raiseE_def log_def Let_def
        py_lower_def py_strip_def is_space_def lower_char_def fresh_oid_def
        text_message_def accepting_def answering_def empty_world_def)


section \<open>The answer to a POST\<close>

text \<open>
  Claim C3. Every POST is answered, and with status 200: the body is the error answer
  exactly when an exception escapes the block inside \<open>try\<close>, and the ok answer
  otherwise. A body that is an object without the \<open>entry\<close> key gets the ok answer and
  only a warning is logged; a request whose body does not decode gets the error answer,
  still with status 200.
\<close>

theorem receive_message_always_200:
  "(\<exists>r. fst (receive_message ev svc req w) = Inr r
        \<and> status_code r = 200
        \<and> (r = error_response) = isl (fst (receive_message_try ev svc req w))
        \<and> (r = ok_response) = (\<not> isl (fst (receive_message_try ev svc req w))))
   \<and> (request_json req = Inr (JObj kvs) \<and> ''entry'' \<notin> fst ` set kvs \<longrightarrow>
        receive_message ev svc req w
          = (Inr ok_response, w\<lparr>logs := logs w @ [(WARNING, ''No entry in webhook body'')]\<rparr>))
   \<and> (request_json req = Inl e \<longrightarrow> fst (receive_message ev svc req w) = Inr error_response)"
proof (intro conjI impI)
  obtain x w' where t: "receive_message_try ev svc req w = (x, w')"
    by (cases "receive_message_try ev svc req w")
  show "\<exists>r. fst (receive_message ev svc req w) = Inr r
        \<and> status_code r = 200
        \<and> (r = error_response) = isl (fst (receive_message_try ev svc req w))
        \<and> (r = ok_response) = (\<not> isl (fst (receive_message_try ev svc req w)))"
  proof (cases x)
    case (Inl e)
    then show ?thesis
      using ok_not_error
      by (simp add: receive_message_def try_except_def t bindE_def log_def returnE_def
            error_response_def)
  next
    case (Inr r)
    then have "r = ok_response"
      using receive_message_try_ok [of ev svc req w r] t by simp
    then show ?thesis
      using Inr ok_not_error
      by (simp add: receive_message_def try_except_def t ok_response_def)
  qed
next
  assume "request_json req = Inr (JObj kvs) \<and> ''entry'' \<notin> fst ` set kvs"
  then show "receive_message ev svc req w
          = (Inr ok_response, w\<lparr>logs := logs w @ [(WARNING, ''No entry in webhook body'')]\<rparr>)"
    by (simp add: receive_message_def receive_message_try_def try_except_def bindE_def liftE_def
          log_def returnE_def)
next
  assume "request_json req = Inl e"
  then show "fst (receive_message ev svc req w) = Inr error_response"
    by (simp add: receive_message_def receive_message_try_def try_except_def bindE_def liftE_def
          log_def returnE_def raiseE_def)
qed

text \<open>
  An empty object, a body that is not JSON, and a greeting delivered while the provider
  is unreachable.
\<close>

theorem receive_message_always_200_witness:
  "receive_message accepting sample_service (request_of (JObj [])) empty_world
     = (Inr ok_response, empty_world\<lparr>logs := [(WARNING, ''No entry in webhook body'')]\<rparr>)
   \<and> fst (receive_message accepting sample_service
            \<lparr> request_headers = [], request_body = ''not json'', request_json = Inl JSONDecodeError \<rparr>
            empty_world) = Inr error_response
   \<and> (\<exists>r. fst (receive_message (answering ConnectionFailed) sample_service
                 (request_of (delivery_of (text_message ''hello''))) empty_world) = Inr r
           \<and> status_code r = 200)"
  using receive_message_always_200 [of accepting sample_service "request_of (JObj [])" empty_world "[]" TypeError]
        receive_message_always_200 [of accepting sample_service
            "\<lparr> request_headers = [], request_body = ''not json'', request_json = Inl JSONDecodeError \<rparr>"
            empty_world "[]" JSONDecodeError]
        receive_message_always_200 [of "answering ConnectionFailed" sample_service
            "request_of (delivery_of (text_message ''hello''))" empty_world "[]" TypeError]
  by (auto simp: request_of_def empty_world_def)



section \<open>Messages of an unrecognized type\<close>

text \<open>
  Claim C9, as the code has it. A message whose type is none of text, image, document,
  audio, video, location and interactive is not only logged: as for every message, the
  read receipt is posted first and, when the provider accepts it, the message is saved.
  The warning \<open>Unsupported message type\<close> is logged only when both succeeded; when the
  read receipt or the save fails, error lines are logged instead and nothing is stored.
  In every case \<open>process_message\<close> returns without raising, the read receipt is the
  only POST (so no type-specific handler has run and no reply is sent), and the loop over
  the messages of the delivery goes on with the remaining ones.
\<close>

theorem unsupported_type_marked_saved_logged:
  assumes "py_get (JObj kvs) ''type'' JNull = Inr t" and "t \<notin> set recognized_types"
  shows "(let i = (case map_of kvs ''id'' of Some v \<Rightarrow> v | None \<Rightarrow> JNull);
              p = \<lparr> post_url = api_url svc @ ''/messages'',
                    post_json = JObj [(''messaging_product'', JStr ''whatsapp''),
                                      (''status'', JStr ''read''), (''message_id'', i)],
                    post_headers = headers svc \<rparr>;
              answer = respond ev (length (posts w)) p;
              saved = ((\<exists>d. answer = Response 200 (Some d)) \<and> \<not> db_fails ev (db_ops w));
              r = process_message ev svc (JObj kvs) val w
          in fst r = Inr ()
           \<and> posts (snd r) = posts w @ [p]
           \<and> messages (snd r) = messages w @
                (if saved
                 then [[(''message_id'', J i),
                        (''from'', J (case map_of kvs ''from'' of Some v \<Rightarrow> v | None \<Rightarrow> JNull)),
                        (''type'', J t),
                        (''timestamp'', J (case map_of kvs ''timestamp'' of Some v \<Rightarrow> v | None \<Rightarrow> JNull)),
                        (''data'', J (JObj kvs)),
                        (''created_at'', DateTime (utcnow ev (clock_reads w))),
                        (''updated_at'', DateTime (utcnow ev (Suc (clock_reads w)))),
                        (''_id'', ObjectId (fresh_oid (messages w)))]]
                 else [])
           \<and> logs (snd r) = logs w @
                (case answer of
                   ConnectionFailed \<Rightarrow>
                     [(ERROR, ''Error sending WhatsApp message''), (ERROR, ''Error processing message'')]
                 | Response st None \<Rightarrow>
                     [(ERROR, ''Error sending WhatsApp message''), (ERROR, ''Error processing message'')]
                 | Response st (Some d) \<Rightarrow>
                     if st \<noteq> 200
                     then [(ERROR, ''WhatsApp API error''), (ERROR, ''Error sending WhatsApp message''),
                           (ERROR, ''Error processing message'')]
                     else if db_fails ev (db_ops w)
                     then [(ERROR, ''Error saving message''), (ERROR, ''Error processing message'')]
                     else [(WARNING, ''Unsupported message type'')])
           \<and> for_each (\<lambda>m. process_message ev svc m val) (JObj kvs # rest) w
               = for_each (\<lambda>m. process_message ev svc m val) rest (snd r))"
proof -
  have step: "for_each (\<lambda>m. process_message ev svc m val) (JObj kvs # rest) w
               = for_each (\<lambda>m. process_message ev svc m val) rest
                   (snd (process_message ev svc (JObj kvs) val w))"
    by (rule for_each_step) (rule process_message_returns)
  show ?thesis
    unfolding Let_def
    by (intro conjI, simp_all only: step)
       (simp_all add: process_message_unsupported_effect [OF assms] Let_def
          split: http_outcome.splits option.splits)
qed

text \<open>A sticker message, with the provider accepting and with the provider unreachable.\<close>

theorem unsupported_type_marked_saved_logged_witness:
  "py_get (JObj [(''id'', JStr ''wamid.S''), (''type'', JStr ''sticker'')]) ''type'' JNull
     = Inr (JStr ''sticker'')
   \<and> JStr ''sticker'' \<notin> set recognized_types
   \<and> fst (process_message accepting sample_service
            (JObj [(''id'', JStr ''wamid.S''), (''type'', JStr ''sticker'')]) (JObj []) empty_world)
       = Inr ()
   \<and> map post_json (posts (snd (process_message accepting sample_service
            (JObj [(''id'', JStr ''wamid.S''), (''type'', JStr ''sticker'')]) (JObj []) empty_world)))
       = [JObj [(''messaging_product'', JStr ''whatsapp''), (''status'', JStr ''read''),
                (''message_id'', JStr ''wamid.S'')]]
   \<and> logs (snd (process_message accepting sample_service
            (JObj [(''id'', JStr ''wamid.S''), (''type'', JStr ''sticker'')]) (JObj []) empty_world))
       = [(WARNING, ''Unsupported message type'')]
   \<and> logs (snd (process_message (answering ConnectionFailed) sample_service
            (JObj [(''id'', JStr ''wamid.S''), (''type'', JStr ''sticker'')]) (JObj []) empty_world))
       = [(ERROR, ''Error sending WhatsApp message''), (ERROR, ''Error processing message'')]
   \<and> messages (snd (process_message (answering ConnectionFailed) sample_service
            (JObj [(''id'', JStr ''wamid.S''), (''type'', JStr ''sticker'')]) (JObj []) empty_world))
       = []"
proof -
  have h1: "py_get (JObj [(''id'', JStr ''wamid.S''), (''type'', JStr ''sticker'')]) ''type'' JNull
     = Inr (JStr ''sticker'')"
    by simp
  have h2: "JStr ''sticker'' \<notin> set recognized_types"
    by (simp add: recognized_types_def)
  show ?thesis
    using h1 h2
      unsupported_type_marked_saved_logged [OF h1 h2, where ev = accepting and svc = sample_service
         and w = empty_world and val = "JObj []" and rest = "[]"]
      unsupported_type_marked_saved_logged [OF h1 h2, where ev = "answering ConnectionFailed"
         and svc = sample_service and w = empty_world and val = "JObj []" and rest = "[]"]
    by (simp add: Let_def accepting_def answering_def empty_world_def)
qed

text \<open>
  Claim C9 as stated fails: for a sticker message the router does more than log. With an
  accepting provider it posts a read receipt and stores a document; with an unreachable
  provider it logs two error lines and never the unsupported-type warning.
\<close>

theorem unsupported_type_not_only_logged:
  "map post_json (posts (snd (process_message accepting sample_service
        (JObj [(''id'', JStr ''wamid.S''), (''type'', JStr ''sticker'')]) (JObj []) empty_world)))
     = [JObj [(''messaging_product'', JStr ''whatsapp''), (''status'', JStr ''read''),
              (''message_id'', JStr ''wamid.S'')]]
   \<and> messages (snd (process_message accepting sample_service
        (JObj [(''id'', JStr ''wamid.S''), (''type'', JStr ''sticker'')]) (JObj []) empty_world))
     = [[(''message_id'', J (JStr ''wamid.S'')), (''from'', J JNull),
         (''type'', J (JStr ''sticker'')), (''timestamp'', J JNull),
         (''data'', J (JObj [(''id'', JStr ''wamid.S''), (''type'', JStr ''sticker'')])),
         (''created_at'', DateTime 0), (''updated_at'', DateTime 1), (''_id'', ObjectId 0)]]
   \<and> logs (snd (process_message (answering ConnectionFailed) sample_service
        (JObj [(''id'', JStr ''wamid.S''), (''type'', JStr ''sticker'')]) (JObj []) empty_world))
     = [(ERROR, ''Error sending WhatsApp message''), (ERROR, ''Error processing message'')]"
proof -
  have h1: "py_get (JObj [(''id'', JStr ''wamid.S''), (''type'', JStr ''sticker'')]) ''type'' JNull
     = Inr (JStr ''sticker'')"
    by simp
  have h2: "JStr ''sticker'' \<notin> set recognized_types"
    by (simp add: recognized_types_def)
  show ?thesis
    by (simp add: process_message_unsupported_effect [OF h1 h2] Let_def accepting_def answering_def
          empty_world_def fresh_oid_def)
qed


section \<open>The menu command, end to end\<close>

text \<open>
  Claim C4, as the code has it. For a delivery with one entry, one change and one text
  message whose body is \<open>menu\<close> (and no statuses), the answer is 200 ok whatever the
  provider and the database do. The read receipt is always posted first. The list
  message, with one section of three rows \<open>option_1\<close>, \<open>option_2\<close>, \<open>option_3\<close>,
  is posted after it, once, exactly when the read receipt got a 200 answer with a
  decodable body and the save succeeded; whether that list send itself succeeds does not
  matter. When the read receipt or the save fails, no list message is posted.
\<close>

theorem menu_delivery_sends_list:
  assumes "request_json req = Inr (JObj bkv)"
    and "map_of bkv ''entry'' = Some (JArr [JObj ekv])"
    and "map_of ekv ''changes'' = Some (JArr [JObj ckv])"
    and "map_of ckv ''value'' = Some (JObj vkv)"
    and "map_of vkv ''messages'' = Some (JArr [JObj mkv])"
    and "''statuses'' \<notin> fst ` set vkv"
    and "map_of mkv ''type'' = Some (JStr ''text'')"
    and "map_of mkv ''text'' = Some (JObj tkv)"
    and "map_of tkv ''body'' = Some (JStr ''menu'')"
  shows "fst (receive_message ev svc req w) = Inr ok_response
       \<and> posts (snd (receive_message ev svc req w))
           = posts w
             @ [\<lparr> post_url = api_url svc @ ''/messages'',
                   post_json = JObj [(''messaging_product'', JStr ''whatsapp''),
                                     (''status'', JStr ''read''),
                                     (''message_id'',
                                      case map_of mkv ''id'' of Some v \<Rightarrow> v | None \<Rightarrow> JNull)],
                   post_headers = headers svc \<rparr>]
             @ (if (\<exists>r. respond ev (length (posts w))
                          \<lparr> post_url = api_url svc @ ''/messages'',
                            post_json = JObj [(''messaging_product'', JStr ''whatsapp''),
                                              (''status'', JStr ''read''),
                                              (''message_id'',
                                               case map_of mkv ''id'' of Some v \<Rightarrow> v | None \<Rightarrow> JNull)],
                            post_headers = headers svc \<rparr> = Response 200 (Some r))
                   \<and> \<not> db_fails ev (db_ops w)
                then [\<lparr> post_url = api_url svc @ ''/messages'',
                        post_json = JObj
                          [(''messaging_product'', JStr ''whatsapp''),
                           (''recipient_type'', JStr ''individual''),
                           (''to'', case map_of mkv ''from'' of Some v \<Rightarrow> v | None \<Rightarrow> JNull),
                           (''type'', JStr ''interactive''),
                           (''interactive'', JObj
                              [(''type'', JStr ''list''),
                               (''body'', JObj [(''text'', JStr ''Select an option from the menu:'')]),
                               (''action'', JObj
                                  [(''button'', JStr ''View Options''),
                                   (''sections'', JArr
                                      [JObj [(''title'', JStr ''Main Menu''),
                                             (''rows'', JArr
                                                [JObj [(''id'', JStr ''option_1''),
                                                       (''title'', JStr ''Option 1''),
                                                       (''description'', JStr ''Description for option 1'')],
                                                 JObj [(''id'', JStr ''option_2''),
                                                       (''title'', JStr ''Option 2''),
                                                       (''description'', JStr ''Description for option 2'')],
                                                 JObj [(''id'', JStr ''option_3''),
                                                       (''title'', JStr ''Option 3''),
                                                       (''description'', JStr ''Description for option 3'')]])]])])])],
                        post_headers = headers svc \<rparr>]
                else [])"
proof -
  have r: "receive_message ev svc req w
             = (Inr ok_response, snd (process_message ev svc (JObj mkv) (JObj vkv) w))"
    using assms(1-6) by (rule single_message_delivery)
  have p: "posts (snd (process_message ev svc (JObj mkv) (JObj vkv) w)) =
             posts w
             @ [\<lparr> post_url = api_url svc @ ''/messages'',
                   post_json = JObj [(''messaging_product'', JStr ''whatsapp''),
                                     (''status'', JStr ''read''),
                                     (''message_id'',
                                      case map_of mkv ''id'' of Some v \<Rightarrow> v | None \<Rightarrow> JNull)],
                   post_headers = headers svc \<rparr>]
             @ (if (\<exists>r. respond ev (length (posts w))
                          \<lparr> post_url = api_url svc @ ''/messages'',
                            post_json = JObj [(''messaging_product'', JStr ''whatsapp''),
                                              (''status'', JStr ''read''),
                                              (''message_id'',
                                               case map_of mkv ''id'' of Some v \<Rightarrow> v | None \<Rightarrow> JNull)],
                            post_headers = headers svc \<rparr> = Response 200 (Some r))
                   \<and> \<not> db_fails ev (db_ops w)
                then [\<lparr> post_url = api_url svc @ ''/messages'',
                        post_json = interactive_payload
                          (case map_of mkv ''from'' of Some v \<Rightarrow> v | None \<Rightarrow> JNull)
                          [(''type'', JStr ''list''),
                           (''body'', JObj [(''text'', JStr ''Select an option from the menu:'')]),
                           (''action'', JObj [(''button'', JStr ''View Options''),
                                              (''sections'', JArr menu_sections)])],
                        post_headers = headers svc \<rparr>]
                else [])"
    unfolding process_message_menu [OF assms(7-9)]
    by (rule mark_save_then_posts) (simp_all add: send_list_posts)
  show ?thesis
    unfolding r using p by (simp add: interactive_payload_def menu_sections_def menu_row_def)
qed

text \<open>The delivery of the repository's test, with body \<open>menu\<close>, when all goes well.\<close>

theorem menu_delivery_sends_list_witness:
  "posts (snd (receive_message accepting sample_service
                 (request_of (delivery_of (text_message ''menu''))) empty_world))
     = [\<lparr> post_url = api_url sample_service @ ''/messages'',
          post_json = JObj [(''messaging_product'', JStr ''whatsapp''),
                            (''status'', JStr ''read''),
                            (''message_id'', JStr ''wamid.test123'')],
          post_headers = headers sample_service \<rparr>,
        \<lparr> post_url = api_url sample_service @ ''/messages'',
          post_json = JObj
            [(''messaging_product'', JStr ''whatsapp''),
             (''recipient_type'', JStr ''individual''),
             (''to'', JStr ''1234567890''),
             (''type'', JStr ''interactive''),
             (''interactive'', JObj
                [(''type'', JStr ''list''),
                 (''body'', JObj [(''text'', JStr ''Select an option from the menu:'')]),
                 (''action'', JObj
                    [(''button'', JStr ''View Options''),
                     (''sections'', JArr
                        [JObj [(''title'', JStr ''Main Menu''),
                               (''rows'', JArr
                                  [JObj [(''id'', JStr ''option_1''),
                                         (''title'', JStr ''Option 1''),
                                         (''description'', JStr ''Description for option 1'')],
                                   JObj [(''id'', JStr ''option_2''),
                                         (''title'', JStr ''Option 2''),
                                         (''description'', JStr ''Description for option 2'')],
                                   JObj [(''id'', JStr ''option_3''),
                                         (''title'', JStr ''Option 3''),
                                         (''description'', JStr ''Description for option 3'')]])]])])])],
          post_headers = headers sample_service \<rparr>]
   \<and> fst (receive_message accepting sample_service
            (request_of (delivery_of (text_message ''menu''))) empty_world) = Inr ok_response"
  using menu_delivery_sends_list [of "request_of (delivery_of (text_message ''menu''))"
          "[(''entry'', JArr [JObj [(''id'', JStr ''123456789''),
             (''changes'', JArr [JObj [(''value'', JObj [(''messaging_product'', JStr ''whatsapp''),
                                                      (''messages'', JArr [text_message ''menu''])]),
                                    (''field'', JStr ''messages'')]])]])]"
          "[(''id'', JStr ''123456789''),
             (''changes'', JArr [JObj [(''value'', JObj [(''messaging_product'', JStr ''whatsapp''),
                                                      (''messages'', JArr [text_message ''menu''])]),
                                    (''field'', JStr ''messages'')]])]"
          "[(''value'', JObj [(''messaging_product'', JStr ''whatsapp''),
                                                      (''messages'', JArr [text_message ''menu''])]),
                                    (''field'', JStr ''messages'')]"
          "[(''messaging_product'', JStr ''whatsapp''), (''messages'', JArr [text_message ''menu''])]"
          "[(''from'', JStr ''1234567890''), (''id'', JStr ''wamid.test123''),
           (''timestamp'', JStr ''1234567890''), (''type'', JStr ''text''),
           (''text'', JObj [(''body'', JStr ''menu'')])]"
          "[(''body'', JStr ''menu'')]"
          accepting sample_service empty_world]
  by (simp add: request_of_def delivery_of_def text_message_def accepting_def answering_def
        empty_world_def)



text \<open>
  Claim C4 as stated fails when the provider cannot be reached: the read receipt is
  attempted, its failure ends the handling of the message, and no list message is
  produced (the answer is still 200 ok).
\<close>

theorem menu_delivery_without_list:
  "map post_json (posts (snd (receive_message (answering ConnectionFailed) sample_service
                 (request_of (delivery_of (text_message ''menu''))) empty_world)))
     = [JObj [(''messaging_product'', JStr ''whatsapp''),
              (''status'', JStr ''read''),
              (''message_id'', JStr ''wamid.test123'')]]
   \<and> fst (receive_message (answering ConnectionFailed) sample_service
            (request_of (delivery_of (text_message ''menu''))) empty_world) = Inr ok_response"
  by (simp add: receive_message_def receive_message_try_def process_entry_def process_change_def
        process_message_def mark_as_read_def send_request_cases try_except_def bindE_def
        liftE_def returnE_def raiseE_def log_def
        request_of_def delivery_of_def text_message_def answering_def empty_world_def)


section \<open>The order in which a delivery is processed\<close>

text \<open>
  Claim C6. For a body with the shape of the provider's envelope: when it has no
  \<open>entry\<close> key, the event sequence is empty, nothing is processed and the answer is
  ok, not an error; otherwise what \<open>receive_message\<close> does is exactly to handle the
  events of \<open>normalize_body\<close> one after the other and then answer ok, and that
  sequence lists entries in array order, changes in array order, and within a change all
  messages before all statuses, each in array order.
\<close>

theorem receive_message_follows_normalize:
  assumes "request_json req = Inr body" and "well_formed_envelope body"
  shows "(obj_field body ''entry'' = None \<longrightarrow>
            normalize_body body = []
          \<and> receive_message ev svc req w
              = (Inr ok_response, w\<lparr>logs := logs w @ [(WARNING, ''No entry in webhook body'')]\<rparr>))
       \<and> (obj_field body ''entry'' \<noteq> None \<longrightarrow>
            receive_message ev svc req w
              = bindE (for_each (handle_event ev svc) (normalize_body body))
                  (\<lambda>_. returnE ok_response) w)"
proof -
  obtain bkv where b: "body = JObj bkv"
    using assms(2) by (cases body) simp_all
  have we: "well_formed_entries (map_of bkv ''entry'')"
    using assms(2) b by simp
  show ?thesis
  proof (cases "map_of bkv ''entry''")
    case None
    then show ?thesis
      using assms(1)
      by (simp add: b normalize_body_def receive_message_def receive_message_try_def try_except_def
            bindE_def liftE_def log_def returnE_def key_present)
  next
    case (Some v)
    then obtain es where v: "v = JArr es"
      using we by (cases v) simp_all
    have "list_all well_formed_entry es"
      using we Some v by simp
    then have "list_all (\<lambda>e. process_entry ev svc e
                 = for_each (handle_event ev svc) (entry_events e)) es"
      by (simp add: list_all_iff process_entry_events)
    then have loop: "for_each (process_entry ev svc) es
                 = for_each (handle_event ev svc) (normalize_body (JObj bkv))"
      using Some v by (simp add: normalize_body_def for_each_concat)
    have t: "receive_message_try ev svc req
               = bindE (for_each (handle_event ev svc) (normalize_body (JObj bkv)))
                   (\<lambda>_. returnE ok_response)"
      using assms(1) Some v by (simp add: b receive_message_try_def key_present loop)
    obtain w' where r: "for_each (handle_event ev svc) (normalize_body (JObj bkv)) w = (Inr (), w')"
      using for_each_returns [of "handle_event ev svc" "normalize_body (JObj bkv)" w,
              OF handle_event_returns]
      by (cases "for_each (handle_event ev svc) (normalize_body (JObj bkv)) w") simp
    show ?thesis
      using Some by (simp add: b receive_message_def t try_except_def bindE_def r returnE_def)
  qed
qed

text \<open>
  A value whose \<open>statuses\<close> key comes before its \<open>messages\<close> key: the message is
  still handled first. And the empty object.
\<close>

theorem receive_message_follows_normalize_witness:
  "normalize_body (JObj [(''entry'', JArr [JObj [(''changes'', JArr [JObj [(''value'',
       JObj [(''statuses'', JArr [JObj [(''id'', JStr ''wamid.A''), (''status'', JStr ''read'')]]),
             (''messages'', JArr [text_message ''hi''])])]])]])])
     = [MessageReceived (text_message ''hi'')
          (JObj [(''statuses'', JArr [JObj [(''id'', JStr ''wamid.A''), (''status'', JStr ''read'')]]),
                 (''messages'', JArr [text_message ''hi''])]),
        StatusUpdate (JObj [(''id'', JStr ''wamid.A''), (''status'', JStr ''read'')])]
   \<and> receive_message accepting sample_service
        (request_of (JObj [(''entry'', JArr [JObj [(''changes'', JArr [JObj [(''value'',
           JObj [(''statuses'', JArr [JObj [(''id'', JStr ''wamid.A''), (''status'', JStr ''read'')]]),
                 (''messages'', JArr [text_message ''hi''])])]])]])])) empty_world
     = bindE (for_each (handle_event accepting sample_service)
               [MessageReceived (text_message ''hi'')
                  (JObj [(''statuses'', JArr [JObj [(''id'', JStr ''wamid.A''), (''status'', JStr ''read'')]]),
                         (''messages'', JArr [text_message ''hi''])]),
                StatusUpdate (JObj [(''id'', JStr ''wamid.A''), (''status'', JStr ''read'')])])
         (\<lambda>_. returnE ok_response) empty_world
   \<and> normalize_body (JObj []) = []
   \<and> fst (receive_message accepting sample_service (request_of (JObj [])) empty_world) = Inr ok_response"
proof -
  let ?body = "JObj [(''entry'', JArr [JObj [(''changes'', JArr [JObj [(''value'',
       JObj [(''statuses'', JArr [JObj [(''id'', JStr ''wamid.A''), (''status'', JStr ''read'')]]),
             (''messages'', JArr [text_message ''hi''])])]])]])]"
  have h1: "request_json (request_of ?body) = Inr ?body"
    and h2: "well_formed_envelope ?body"
    and h3: "request_json (request_of (JObj [])) = Inr (JObj [])"
    and h4: "well_formed_envelope (JObj [])"
    by (simp_all add: request_of_def)
  have n: "normalize_body ?body
     = [MessageReceived (text_message ''hi'')
          (JObj [(''statuses'', JArr [JObj [(''id'', JStr ''wamid.A''), (''status'', JStr ''read'')]]),
                 (''messages'', JArr [text_message ''hi''])]),
        StatusUpdate (JObj [(''id'', JStr ''wamid.A''), (''status'', JStr ''read'')])]"
    by (simp add: normalize_body_def entry_events_def change_events_def)
  show ?thesis
    using receive_message_follows_normalize [OF h1 h2, of accepting sample_service empty_world]
          receive_message_follows_normalize [OF h3 h4, of accepting sample_service empty_world]
    by (simp add: n)
qed

end
